theory Spec2Isabelle
  imports Complex_Main "HOL-Library.AList" "HOL-Library.Char_ord" "HOL-Library.List_Lexorder"
    "HOL-Library.Product_Lexorder" "HOL-Library.Multiset"
begin

section \<open>Time\<close>

text \<open>
  A calendar date is (year, month, day); a timestamp is a date with an hour of the day
  (the snapshots are hourly series of naive local timestamps).  Both are ordered
  lexicographically, which is the chronological order.  The functions below are the
  \<^verbatim>\<open>pd.Timedelta\<close> arithmetic the source performs on them.
\<close>

type_synonym date = "nat \<times> nat \<times> nat"
type_synonym timestamp = "date \<times> nat"

definition is_leap_year :: "nat \<Rightarrow> bool" where
  "is_leap_year y = (y mod 4 = 0 \<and> (y mod 100 \<noteq> 0 \<or> y mod 400 = 0))"

definition days_in_month :: "nat \<Rightarrow> nat \<Rightarrow> nat" where
  "days_in_month y m =
     (if m = 2 then (if is_leap_year y then 29 else 28)
      else if m = 4 \<or> m = 6 \<or> m = 9 \<or> m = 11 then 30 else 31)"

definition add_day :: "date \<Rightarrow> date" where
  "add_day d = (case d of (y, m, dd) \<Rightarrow>
     if dd < days_in_month y m then (y, m, dd + 1)
     else if m < 12 then (y, m + 1, 1) else (y + 1, 1, 1))"

definition sub_day :: "date \<Rightarrow> date" where
  "sub_day d = (case d of (y, m, dd) \<Rightarrow>
     if 1 < dd then (y, m, dd - 1)
     else if 1 < m then (y, m - 1, days_in_month y (m - 1)) else (y - 1, 12, 31))"

definition add_hour :: "timestamp \<Rightarrow> timestamp" where
  "add_hour t = (case t of (d, h) \<Rightarrow> if h < 23 then (d, h + 1) else (add_day d, 0))"

definition add_day_ts :: "timestamp \<Rightarrow> timestamp" where
  "add_day_ts t = (case t of (d, h) \<Rightarrow> (add_day d, h))"

definition sub_day_ts :: "timestamp \<Rightarrow> timestamp" where
  "sub_day_ts t = (case t of (d, h) \<Rightarrow> (sub_day d, h))"

section \<open>Data frames\<close>

text \<open>
  A snapshot is a \<^verbatim>\<open>pandas.DataFrame\<close> whose first column is the category
  (\<^verbatim>\<open>location\<close> or \<^verbatim>\<open>Polluant\<close>), whose second is \<^verbatim>\<open>Datetime\<close>, and whose
  remaining columns are numeric; \<open>None\<close> is NaN.  The value columns are positional, in
  the order \<^verbatim>\<open>pivot_table\<close> leaves them in (alphabetical).  Values are real numbers:
  no theorem below depends on floating-point rounding.
\<close>

record row =
  category :: string
  Datetime :: timestamp
  vals :: "real option list"

type_synonym dataframe = "row list"

definition key :: "row \<Rightarrow> string \<times> timestamp" where
  "key r = (category r, Datetime r)"

definition column :: "nat \<Rightarrow> real option list \<Rightarrow> real option" where
  "column j vs = (if j < length vs then vs ! j else None)"

definition width :: "dataframe \<Rightarrow> nat" where
  "width df = fold max (map (\<lambda>r. length (vals r)) df) 0"

text \<open>\<^verbatim>\<open>Series.max()\<close> and \<^verbatim>\<open>Series.min()\<close> of a timestamp column; \<open>None\<close> is NaT.\<close>

definition max_ts :: "timestamp list \<Rightarrow> timestamp option" where
  "max_ts ts = (case ts of [] \<Rightarrow> None | t # ts' \<Rightarrow> Some (fold max ts' t))"

definition min_ts :: "timestamp list \<Rightarrow> timestamp option" where
  "min_ts ts = (case ts of [] \<Rightarrow> None | t # ts' \<Rightarrow> Some (fold min ts' t))"

text \<open>
  \<^verbatim>\<open>drop_duplicates(subset = [category, 'Datetime'], keep = ...)\<close>: of the rows that share
  a key, the last (or the first) one stays, at its own place.
\<close>

fun drop_duplicates_last :: "dataframe \<Rightarrow> dataframe" where
  "drop_duplicates_last [] = []"
| "drop_duplicates_last (r # rs) =
     (if key r \<in> set (map key rs) then drop_duplicates_last rs
      else r # drop_duplicates_last rs)"

fun drop_duplicates_seen :: "(string \<times> timestamp) list \<Rightarrow> dataframe \<Rightarrow> dataframe" where
  "drop_duplicates_seen seen [] = []"
| "drop_duplicates_seen seen (r # rs) =
     (if key r \<in> set seen then drop_duplicates_seen seen rs
      else r # drop_duplicates_seen (key r # seen) rs)"

definition drop_duplicates_first :: "dataframe \<Rightarrow> dataframe" where
  "drop_duplicates_first df = drop_duplicates_seen [] df"

text \<open>
  \<^verbatim>\<open>sort_values(by = [category, 'Datetime'], ascending = ...)\<close>, as a stable insertion sort
  under the given comparison.
\<close>

fun insert_row :: "('a \<Rightarrow> 'a \<Rightarrow> bool) \<Rightarrow> 'a \<Rightarrow> 'a list \<Rightarrow> 'a list" where
  "insert_row le r [] = [r]"
| "insert_row le r (x # xs) = (if le r x then r # x # xs else x # insert_row le r xs)"

definition sort_values :: "('a \<Rightarrow> 'a \<Rightarrow> bool) \<Rightarrow> 'a list \<Rightarrow> 'a list" where
  "sort_values le df = foldr (insert_row le) df []"

definition ascending_ascending :: "row \<Rightarrow> row \<Rightarrow> bool" where
  "ascending_ascending r x = (key r \<le> key x)"

definition descending_ascending :: "row \<Rightarrow> row \<Rightarrow> bool" where
  "descending_ascending r x =
     (category x < category r \<or> (category r = category x \<and> Datetime r \<le> Datetime x))"

text \<open>
  \<^verbatim>\<open>pivot_table(index = [category, 'Datetime'], dropna = False)\<close>: the rows are grouped
  by key and every value column is aggregated by its mean over the group, NaN skipped
  (a group with no known value gives NaN).  With \<^verbatim>\<open>dropna = False\<close> the result is
  re-indexed to the cartesian product of the two sorted index levels, so every category
  gets a row for every timestamp of the frame.  The result is kept grouped by category,
  which is what \<^verbatim>\<open>df.loc[category]\<close> reads.
\<close>

type_synonym category_df = "(timestamp \<times> real option list) list"

definition mean :: "real option list \<Rightarrow> real option" where
  "mean xs = (let known = List.map_filter (\<lambda>x. x) xs
              in if known = [] then None else Some (sum_list known / real (length known)))"

definition levels :: "'a::linorder list \<Rightarrow> 'a list" where
  "levels xs = sort (remdups xs)"

definition cell :: "dataframe \<Rightarrow> string \<Rightarrow> timestamp \<Rightarrow> nat \<Rightarrow> real option" where
  "cell df c t j =
     mean (map (\<lambda>r. column j (vals r)) (filter (\<lambda>r. category r = c \<and> Datetime r = t) df))"

definition pivot_table :: "dataframe \<Rightarrow> (string \<times> category_df) list" where
  "pivot_table df =
     map (\<lambda>c. (c, map (\<lambda>t. (t, map (cell df c t) [0..<width df])) (levels (map Datetime df))))
       (levels (map category df))"

text \<open>
  \<^verbatim>\<open>interpolate()\<close> (method \<^verbatim>\<open>linear\<close>, direction forward) on one column: the values are
  taken as equally spaced; a run of NaN between two known values is filled linearly, a
  run after the last known value repeats it, and a run before the first known value
  stays NaN.  \<open>linear_from\<close> carries the last known value and how many steps back it is.
  \<^verbatim>\<open>interpolate(method = 'pad')\<close> repeats the last known value forward.
\<close>

fun next_known :: "real option list \<Rightarrow> (nat \<times> real) option" where
  "next_known [] = None"
| "next_known (Some v # xs) = Some (0, v)"
| "next_known (None # xs) = map_option (\<lambda>(n, v). (Suc n, v)) (next_known xs)"

fun linear_from :: "(nat \<times> real) option \<Rightarrow> real option list \<Rightarrow> real option list" where
  "linear_from prev [] = []"
| "linear_from prev (Some v # xs) = Some v # linear_from (Some (1, v)) xs"
| "linear_from None (None # xs) = None # linear_from None xs"
| "linear_from (Some (k, a)) (None # xs) =
     (case next_known xs of
        None \<Rightarrow> Some a
      | Some (n, b) \<Rightarrow> Some (a + (b - a) * real k / real (k + n + 1)))
     # linear_from (Some (Suc k, a)) xs"

definition interpolate_linear :: "real option list \<Rightarrow> real option list" where
  "interpolate_linear xs = linear_from None xs"

fun pad_from :: "real option \<Rightarrow> real option list \<Rightarrow> real option list" where
  "pad_from prev [] = []"
| "pad_from prev (Some v # xs) = Some v # pad_from (Some v) xs"
| "pad_from prev (None # xs) = prev # pad_from prev xs"

definition interpolate_pad :: "real option list \<Rightarrow> real option list" where
  "interpolate_pad xs = pad_from None xs"

definition isna_any :: "category_df \<Rightarrow> bool" where
  "isna_any cdf = list_ex (\<lambda>tv. list_ex (\<lambda>v. v = None) (snd tv)) cdf"

definition interpolate :: "(real option list \<Rightarrow> real option list) \<Rightarrow> nat \<Rightarrow> category_df
    \<Rightarrow> category_df" where
  "interpolate method w cdf =
     (let cols = map (\<lambda>j. method (map (\<lambda>tv. column j (snd tv)) cdf)) [0..<w]
      in map (\<lambda>i. (fst (cdf ! i), map (\<lambda>j. cols ! j ! i) [0..<w])) [0..<length cdf])"

datatype exn = FileNotFoundError | ValueError | KeyError | TypeError | ConnectionError
  | UnboundLocalError | OSError | Exception exn

text \<open>
  \<^verbatim>\<open>DataManager.fill_missing_values\<close>.  On a frame with no rows the loop over the
  categories appends nothing and \<^verbatim>\<open>pd.concat([])\<close> raises \<^verbatim>\<open>ValueError\<close>.
\<close>

definition fill_category :: "nat \<Rightarrow> category_df \<Rightarrow> category_df" where
  "fill_category w category_df =
     (if isna_any category_df then
        (let category_df1 = interpolate interpolate_linear w category_df
         in if isna_any category_df1 then interpolate interpolate_pad w category_df1
            else category_df1)
      else category_df)"

definition reset_index :: "string \<Rightarrow> category_df \<Rightarrow> dataframe" where
  "reset_index c category_df =
     map (\<lambda>tv. \<lparr>category = c, Datetime = fst tv, vals = snd tv\<rparr>) category_df"

definition fill_missing_values :: "dataframe \<Rightarrow> exn + dataframe" where
  "fill_missing_values df =
     (if df = [] then Inl ValueError
      else Inr (concat (map (\<lambda>cd. reset_index (fst cd) (fill_category (width df) (snd cd)))
                         (pivot_table df))))"

section \<open>The frames the three merges build\<close>

text \<open>
  The \<^verbatim>\<open>merged_data\<close> of \<^verbatim>\<open>WeatherForecastDataManager.merge_fetched_and_current_data\<close>
  (the location is sorted descending there), and the frame
  \<^verbatim>\<open>AirQualityDataManager.add_processed_fetched_data_to_existing\<close> returns for the
  staged snapshot it has loaded.
\<close>

definition forecast_merged_data :: "dataframe \<Rightarrow> dataframe \<Rightarrow> dataframe" where
  "forecast_merged_data fetched_data current_data =
     sort_values descending_ascending (drop_duplicates_last (current_data @ fetched_data))"

definition add_processed_fetched_data :: "dataframe \<Rightarrow> dataframe \<Rightarrow> dataframe" where
  "add_processed_fetched_data existing_data processed_fetched_data =
     sort_values ascending_ascending
       (drop_duplicates_first (existing_data @ processed_fetched_data))"

text \<open>
  The consistency check of \<^verbatim>\<open>HistoricalWeatherDataManager.get_merged_new_and_existing_data\<close>:
  a comparison with NaT (an empty frame on either side) is never an equality.
  \<^verbatim>\<open>fix_error_values\<close>: the value columns are \<^verbatim>\<open>dwpt, pres, rhum, temp, wdir, wspd\<close>, so
  \<^verbatim>\<open>dwpt\<close> is column 0 and \<^verbatim>\<open>rhum\<close> column 2; a frame without them raises
  \<^verbatim>\<open>KeyError\<close>.
\<close>

definition follows_on :: "timestamp option \<Rightarrow> timestamp option \<Rightarrow> bool" where
  "follows_on new_data_first_time existing_data_last_time =
     (case (new_data_first_time, existing_data_last_time) of
        (Some f, Some l) \<Rightarrow> f = add_hour l
      | _ \<Rightarrow> False)"

definition fix_error_values :: "dataframe \<Rightarrow> exn + dataframe" where
  "fix_error_values df =
     (if width df < 3 then Inl KeyError
      else
        (let dwpt_mean = mean (map (\<lambda>r. column 0 (vals r)) df);
             fix_dwpt = (\<lambda>v. case v of None \<Rightarrow> None
                              | Some x \<Rightarrow> if x < - 10 then dwpt_mean else Some x);
             fix_rhum = (\<lambda>v. case v of None \<Rightarrow> None
                              | Some x \<Rightarrow> if 100 < x then Some 100 else Some x)
         in Inr (map (\<lambda>r. r\<lparr>vals := (vals r)[0 := fix_dwpt (column 0 (vals r)),
                                               2 := fix_rhum (column 2 (vals r))]\<rparr>) df)))"

section \<open>The world the update runs in\<close>

text \<open>
  The file system, the external services, the clock and the configuration, as one
  record that every operation takes and returns:
  \<^item> \<open>timeseries\<close> is the directory \<^verbatim>\<open>EXISTING_DATA_PATH\<close> of live snapshot files, by
    file name; \<open>timeseries_temp\<close> is its \<^verbatim>\<open>temp\<close> subdirectory, \<open>None\<close> when it does
    not exist.  A snapshot file holds a pickled data frame.
  \<^item> the three backup directories hold the raw payloads, by date (and pollutant);
  \<^item> \<open>geodair\<close> is the list of answers the Geod'Air server is going to give, in the order
    of the requests (with none left, the request raises \<^verbatim>\<open>ConnectionError\<close>), and
    \<open>geodair_log\<close> the requests sent to it so far; \<open>read_csv\<close> is the table pandas reads
    from a downloaded text;
  \<^item> \<open>open_meteo\<close>, \<open>meteostat_nearby\<close> and \<open>meteostat_hourly\<close> answer the weather
    requests;
  \<^item> \<open>today\<close> is the clock, \<open>DEBUG\<close> the configuration flag;
  \<^item> \<open>existing_data\<close>, \<open>temp_existing_data\<close> and \<open>station_ids\<close> are the in-memory
    caches of the three data managers;
  \<^item> \<open>error_log\<close> holds what the loggers have written at level \<^verbatim>\<open>error\<close>, oldest
    first, each message by its text and the values formatted into it;
  \<^item> \<open>shutil_faults\<close> is what the file system is going to do to the successive calls
    of \<^verbatim>\<open>shutil.copytree\<close>, of the \<^verbatim>\<open>os.listdir\<close> and \<^verbatim>\<open>shutil.copy2\<close> loop and of
    \<^verbatim>\<open>shutil.rmtree\<close> in \<^verbatim>\<open>DataUpdater\<close>, in the order of the calls: \<open>None\<close> (and
    so does a list with nothing left) lets the call succeed, \<open>Raises e\<close> makes it raise
    \<open>e\<close> before it has changed any file, and \<open>Raises_after done e\<close> makes it raise \<open>e\<close>
    once it has dealt with the files whose names satisfy \<open>done\<close>, and with no other.
  Log lines of the levels \<^verbatim>\<open>info\<close> and \<^verbatim>\<open>warning\<close>, and \<^verbatim>\<open>time.sleep\<close>, are left
  out.
\<close>

datatype dataset = WeatherForecast | HistoricalWeather | AirQuality

record pollutant_row =
  Date_de_debut :: timestamp
  Polluant :: string
  nom_site :: string
  valeur_brute :: "real option"

record response =
  status_code :: nat
  response_text :: string

datatype request = MoyH_export date string | Download "string option"

datatype error_message =
    Unsuccessful_request date string nat
  | Unexpected_content date string string
  | Error_updating_air_quality "date option" exn
  | Error_fetching_historical_weather date exn
  | Error_adding_historical_weather date exn
  | Error_on_data_update exn

datatype fault = Raises exn | Raises_after "string \<Rightarrow> bool" exn

record world =
  timeseries :: "string \<rightharpoonup> dataframe"
  timeseries_temp :: "(string \<rightharpoonup> dataframe) option"
  pollutants_backups :: "string \<times> date \<rightharpoonup> string"
  historical_weather_backups :: "date \<rightharpoonup> dataframe"
  weather_forecast_backups :: "date \<rightharpoonup> dataframe"
  geodair :: "response list"
  geodair_log :: "request list"
  read_csv :: "string \<Rightarrow> pollutant_row list"
  open_meteo :: "string \<Rightarrow> date \<Rightarrow> date \<Rightarrow> exn + category_df"
  meteostat_nearby :: "string \<Rightarrow> string option"
  meteostat_hourly :: "string \<Rightarrow> date \<Rightarrow> exn + category_df"
  today :: date
  DEBUG :: bool
  existing_data :: "dataset \<Rightarrow> dataframe option"
  temp_existing_data :: "dataset \<Rightarrow> dataframe option"
  station_ids :: "(string \<times> string) list option"
  error_log :: "error_message list"
  shutil_faults :: "fault option list"

text \<open>
  An operation returns its result or the exception it raised, and the world as it has
  left it in either case.
\<close>

type_synonym 'a action = "world \<Rightarrow> (exn + 'a) \<times> world"

definition return :: "'a \<Rightarrow> 'a action" where
  "return x w = (Inr x, w)"

definition raise :: "exn \<Rightarrow> 'a action" where
  "raise e w = (Inl e, w)"

definition lift :: "exn + 'a \<Rightarrow> 'a action" where
  "lift r w = (r, w)"

definition bind :: "'a action \<Rightarrow> ('a \<Rightarrow> 'b action) \<Rightarrow> 'b action" where
  "bind m f w = (case m w of (Inl e, w') \<Rightarrow> (Inl e, w') | (Inr x, w') \<Rightarrow> f x w')"

definition try_except :: "'a action \<Rightarrow> (exn \<Rightarrow> 'a action) \<Rightarrow> 'a action" where
  "try_except m handler w = (case m w of (Inl e, w') \<Rightarrow> handler e w' | (Inr x, w') \<Rightarrow> (Inr x, w'))"

section \<open>DataManager\<close>

definition EXISTING_DATA_FILENAME :: "dataset \<Rightarrow> string" where
  "EXISTING_DATA_FILENAME ds = (case ds of
       WeatherForecast \<Rightarrow> ''Processed weather forecast data.pkl''
     | HistoricalWeather \<Rightarrow> ''Processed historical weather data.pkl''
     | AirQuality \<Rightarrow> ''Processed pollutants data.pkl'')"

definition LOCATIONS :: "string list" where
  "LOCATIONS = [''Montpellier'', ''Marseille'']"

text \<open>The constructor of a data manager: its caches start empty.\<close>

definition init_manager :: "dataset \<Rightarrow> unit action" where
  "init_manager ds w =
     (Inr (), w\<lparr>existing_data := (existing_data w)(ds := None),
                temp_existing_data := (temp_existing_data w)(ds := None),
                station_ids := (if ds = HistoricalWeather then None else station_ids w)\<rparr>)"

definition logger_error :: "error_message \<Rightarrow> unit action" where
  "logger_error message w = (Inr (), w\<lparr>error_log := error_log w @ [message]\<rparr>)"

definition handle_error :: "exn \<Rightarrow> (exn \<Rightarrow> error_message) \<Rightarrow> unit action" where
  "handle_error e message =
     bind (logger_error (message e)) (\<lambda>_ w.
       if DEBUG w then (Inl (Exception e), w) else (Inr (), w))"

definition get_existing_data_df :: "dataset \<Rightarrow> bool \<Rightarrow> dataframe action" where
  "get_existing_data_df ds temp w =
     (if temp then
        (case temp_existing_data w ds of
           Some df \<Rightarrow> (Inr df, w)
         | None \<Rightarrow>
            (case timeseries_temp w of
               None \<Rightarrow> (Inl FileNotFoundError, w)
             | Some files \<Rightarrow>
                (case files (EXISTING_DATA_FILENAME ds) of
                   None \<Rightarrow> (Inl FileNotFoundError, w)
                 | Some df \<Rightarrow>
                    (Inr df, w\<lparr>temp_existing_data := (temp_existing_data w)(ds := Some df)\<rparr>))))
      else
        (case existing_data w ds of
           Some df \<Rightarrow> (Inr df, w)
         | None \<Rightarrow>
            (case timeseries w (EXISTING_DATA_FILENAME ds) of
               None \<Rightarrow> (Inl FileNotFoundError, w)
             | Some df \<Rightarrow> (Inr df, w\<lparr>existing_data := (existing_data w)(ds := Some df)\<rparr>))))"

text \<open>
  \<^verbatim>\<open>save_existing_data_df\<close> sets the cache first and then opens the file for writing,
  which raises when the \<^verbatim>\<open>temp\<close> directory does not exist.
\<close>

definition save_existing_data_df :: "dataset \<Rightarrow> dataframe \<Rightarrow> bool \<Rightarrow> unit action" where
  "save_existing_data_df ds df temp w =
     (if temp then
        (let w1 = w\<lparr>temp_existing_data := (temp_existing_data w)(ds := Some df)\<rparr>
         in case timeseries_temp w1 of
              None \<Rightarrow> (Inl FileNotFoundError, w1)
            | Some files \<Rightarrow>
               (Inr (), w1\<lparr>timeseries_temp := Some (files(EXISTING_DATA_FILENAME ds \<mapsto> df))\<rparr>))
      else
        (let w1 = w\<lparr>existing_data := (existing_data w)(ds := Some df)\<rparr>
         in (Inr (), w1\<lparr>timeseries := (timeseries w1)(EXISTING_DATA_FILENAME ds \<mapsto> df)\<rparr>)))"

definition get_existing_data_last_time :: "dataset \<Rightarrow> bool \<Rightarrow> timestamp option action" where
  "get_existing_data_last_time ds temp =
     bind (get_existing_data_df ds temp) (\<lambda>existing_data_df.
       return (max_ts (map Datetime existing_data_df)))"

definition get_next_day_to_fetch :: "dataset \<Rightarrow> bool \<Rightarrow> date option action" where
  "get_next_day_to_fetch ds temp =
     bind (get_existing_data_last_time ds temp) (\<lambda>existing_data_last_time.
       return (map_option (\<lambda>t. add_day (fst t)) existing_data_last_time))"

definition previous_days_data_exists :: "dataset \<Rightarrow> date \<Rightarrow> bool \<Rightarrow> bool action" where
  "previous_days_data_exists ds date temp =
     bind (get_existing_data_last_time ds temp) (\<lambda>existing_data_last_time.
       return (case existing_data_last_time of
                 None \<Rightarrow> False
               | Some l \<Rightarrow> sub_day_ts (date, 23) \<le> l))"

text \<open>
  The comparison \<^verbatim>\<open>next_day_to_fetch > yesterday\<close> of both \<^verbatim>\<open>update_next_day\<close>, and
  \<^verbatim>\<open>last_date_current_data >= end\<close> of the forecast update: on NaT (an empty snapshot)
  it raises \<^verbatim>\<open>TypeError\<close>.
\<close>

definition compare_date :: "(date \<Rightarrow> bool) \<Rightarrow> date option \<Rightarrow> bool action" where
  "compare_date p d = (case d of None \<Rightarrow> raise TypeError | Some d' \<Rightarrow> return (p d'))"

section \<open>AirQualityDataManager: the fetch phase\<close>

definition POLLUTANTS :: "string list" where
  "POLLUTANTS = [''NO2'', ''O3'', ''PM10'', ''PM2.5'', ''SO2'']"

definition download_file_exists :: "date \<Rightarrow> string \<Rightarrow> world \<Rightarrow> bool" where
  "download_file_exists date pollutant w = (pollutants_backups w (pollutant, date) \<noteq> None)"

definition get_pollutants_to_request :: "date \<Rightarrow> world \<Rightarrow> string list" where
  "get_pollutants_to_request date w =
     filter (\<lambda>pollutant. \<not> download_file_exists date pollutant w) POLLUTANTS"

definition get_api_response :: "request \<Rightarrow> response action" where
  "get_api_response rq w =
     (let w1 = w\<lparr>geodair_log := geodair_log w @ [rq]\<rparr>
      in case geodair w1 of
           [] \<Rightarrow> (Inl ConnectionError, w1)
         | r # rs \<Rightarrow> (Inr r, w1\<lparr>geodair := rs\<rparr>))"

definition fetch_download_id :: "date \<Rightarrow> string \<Rightarrow> string option action" where
  "fetch_download_id date pollutant =
     bind (get_api_response (MoyH_export date pollutant)) (\<lambda>response.
       if status_code response \<noteq> 200 then
         bind (logger_error (Unsuccessful_request date pollutant (status_code response)))
           (\<lambda>_. return None)
       else if take 7 (response_text response) \<noteq> ''moyenne'' then
         bind (logger_error (Unexpected_content date pollutant (response_text response)))
           (\<lambda>_. return None)
       else return (Some (response_text response)))"

definition download_file_stream :: "string option \<Rightarrow> string option action" where
  "download_file_stream download_id =
     bind (get_api_response (Download download_id)) (\<lambda>response.
       if status_code response \<noteq> 200 then return None
       else if take 4 (response_text response) \<noteq> ''Date'' then return None
       else return (Some (response_text response)))"

definition save_backup :: "string \<Rightarrow> date \<Rightarrow> string \<Rightarrow> unit action" where
  "save_backup content date pollutant w =
     (Inr (), w\<lparr>pollutants_backups := (pollutants_backups w)((pollutant, date) \<mapsto> content)\<rparr>)"

text \<open>Python's truth value of \<^verbatim>\<open>None\<close> or a string.\<close>

definition truthy :: "string option \<Rightarrow> bool" where
  "truthy x = (case x of None \<Rightarrow> False | Some s \<Rightarrow> s \<noteq> [])"

text \<open>
  \<^verbatim>\<open>fetch_pollutant_download_ids\<close>: the loop over the pollutants, with the dictionary
  \<^verbatim>\<open>download_ids\<close> as an association list in insertion order.  The identifier is
  requested a second time for the value stored.
\<close>

fun fetch_pollutant_download_ids_loop ::
    "date \<Rightarrow> string list \<Rightarrow> (string \<times> string option) list
      \<Rightarrow> (string \<times> string option) list action" where
  "fetch_pollutant_download_ids_loop date [] download_ids = return download_ids"
| "fetch_pollutant_download_ids_loop date (pollutant # pollutants) download_ids =
     bind (fetch_download_id date pollutant) (\<lambda>response.
       if truthy response then
         bind (fetch_download_id date pollutant) (\<lambda>download_id.
           fetch_pollutant_download_ids_loop date pollutants
             (AList.update pollutant download_id download_ids))
       else fetch_pollutant_download_ids_loop date pollutants download_ids)"

definition fetch_pollutant_download_ids ::
    "date \<Rightarrow> string list \<Rightarrow> (string \<times> string option) list action" where
  "fetch_pollutant_download_ids date pollutants =
     fetch_pollutant_download_ids_loop date pollutants []"

definition fetch_required_pollutant_ids :: "date \<Rightarrow> (string \<times> string option) list action" where
  "fetch_required_pollutant_ids date w =
     fetch_pollutant_download_ids date (get_pollutants_to_request date w) w"

fun download_file_streams :: "date \<Rightarrow> (string \<times> string option) list \<Rightarrow> unit action" where
  "download_file_streams date [] = return ()"
| "download_file_streams date ((pollutant, download_id) # download_ids) =
     bind (download_file_stream download_id) (\<lambda>content.
       bind (if truthy content then save_backup (the content) date pollutant else return ())
         (\<lambda>_. download_file_streams date download_ids))"

definition single_fetch_data :: "date \<Rightarrow> (string \<times> string option) list action" where
  "single_fetch_data date =
     bind (fetch_required_pollutant_ids date) (\<lambda>download_ids.
       bind (download_file_streams date download_ids) (\<lambda>_.
         bind (fetch_required_pollutant_ids date) (\<lambda>remaining_pollutant_ids.
           return remaining_pollutant_ids)))"

section \<open>AirQualityDataManager: processing and merging a day\<close>

definition Pres_d_Arenes :: string where
  "Pres_d_Arenes = ''Montpellier Pr'' @ [CHR 0xC3, CHR 0xA9] @ ''s d'' @ [CHR 0x27]
     @ ''Ar'' @ [CHR 0xC3, CHR 0xA8] @ ''nes''"

definition STATION_LOCATIONS :: "string \<Rightarrow> string list" where
  "STATION_LOCATIONS pollutant =
     (if pollutant = ''NO2'' then
        [''Montpellier Chaptal'', Pres_d_Arenes, ''Montpellier St Denis'', ''Pompignane'']
      else if pollutant = ''O3'' then [Pres_d_Arenes]
      else if pollutant = ''PM10'' then [Pres_d_Arenes, ''Pompignane'']
      else if pollutant = ''PM2.5'' then [Pres_d_Arenes, ''Pompignane'']
      else if pollutant = ''SO2'' then [''MARSEILLE 5 AVENUES'']
      else [])"

definition filter_pollutants_data_by_location ::
    "pollutant_row list \<Rightarrow> string \<Rightarrow> pollutant_row list" where
  "filter_pollutants_data_by_location df pollutant =
     filter (\<lambda>r. nom_site r \<in> set (STATION_LOCATIONS pollutant))
       (map (\<lambda>r. if nom_site r = ''Chaptal'' then r\<lparr>nom_site := ''Montpellier Chaptal''\<rparr>
                  else if nom_site r = ''Saint Denis'' then r\<lparr>nom_site := ''Montpellier St Denis''\<rparr>
                  else r) df)"

definition get_previous_day_data :: "date \<Rightarrow> string \<Rightarrow> dataframe action" where
  "get_previous_day_data date pollutant =
     bind (get_existing_data_df AirQuality False) (\<lambda>existing_data.
       return (filter (\<lambda>r. category r = pollutant \<and> fst (Datetime r) = sub_day date)
                 existing_data))"

definition get_filled_missing_day_data :: "date \<Rightarrow> string \<Rightarrow> pollutant_row list action" where
  "get_filled_missing_day_data date pollutant =
     bind (get_previous_day_data date pollutant) (\<lambda>filled_day_data.
       return (map (\<lambda>r. \<lparr>Date_de_debut = add_day_ts (Datetime r), Polluant = category r,
                           nom_site = ''Dummy site'', valeur_brute = column 0 (vals r)\<rparr>)
                 filled_day_data))"

text \<open>
  \<^verbatim>\<open>get_merged_pollutants_data\<close>: \<^verbatim>\<open>pd.read_csv\<close> raises \<^verbatim>\<open>FileNotFoundError\<close> on a
  pollutant whose backup file does not exist.
\<close>

fun get_merged_pollutants_data_loop :: "date \<Rightarrow> string list \<Rightarrow> pollutant_row list action" where
  "get_merged_pollutants_data_loop date [] = return []"
| "get_merged_pollutants_data_loop date (pollutant # pollutants) =
     (\<lambda>w. case pollutants_backups w (pollutant, date) of
        None \<Rightarrow> (Inl FileNotFoundError, w)
      | Some content \<Rightarrow>
         (let pollutant_data_df = filter_pollutants_data_by_location (read_csv w content) pollutant
          in bind (if length pollutant_data_df = 0 then get_filled_missing_day_data date pollutant
                   else return pollutant_data_df) (\<lambda>pollutant_data_df.
               bind (get_merged_pollutants_data_loop date pollutants) (\<lambda>rest.
                 return (pollutant_data_df @ rest)))) w)"

definition get_merged_pollutants_data :: "date \<Rightarrow> pollutant_row list action" where
  "get_merged_pollutants_data date = get_merged_pollutants_data_loop date POLLUTANTS"

definition get_non_positive_values_replaced_with_nan ::
    "pollutant_row list \<Rightarrow> pollutant_row list" where
  "get_non_positive_values_replaced_with_nan df =
     map (\<lambda>r. case valeur_brute r of
                 None \<Rightarrow> r
               | Some x \<Rightarrow> if x \<le> 0 then r\<lparr>valeur_brute := None\<rparr> else r) df"

definition get_data_averaged_across_sites :: "pollutant_row list \<Rightarrow> dataframe" where
  "get_data_averaged_across_sites pollutants_data =
     concat (map (\<lambda>cd. reset_index (fst cd) (snd cd))
       (pivot_table (map (\<lambda>r. \<lparr>category = Polluant r, Datetime = Date_de_debut r,
                                  vals = [valeur_brute r]\<rparr>) pollutants_data)))"

definition get_cleaned_fetched_pollutants_data :: "date \<Rightarrow> dataframe action" where
  "get_cleaned_fetched_pollutants_data date =
     bind (get_merged_pollutants_data date) (\<lambda>fetched_data.
       return (get_data_averaged_across_sites
                 (get_non_positive_values_replaced_with_nan fetched_data)))"

definition add_processed_fetched_data_to_existing :: "dataframe \<Rightarrow> dataframe action" where
  "add_processed_fetched_data_to_existing processed_fetched_data =
     bind (get_existing_data_df AirQuality True) (\<lambda>existing_data.
       return (add_processed_fetched_data existing_data processed_fetched_data))"

text \<open>
  \<^verbatim>\<open>run_update\<close>; \<open>run_update_merge\<close> is the body of its \<^verbatim>\<open>if\<close>, which reads the
  cached raw files, merges them into the staged snapshot, fills it and saves it.
\<close>

definition run_update_merge :: "date \<Rightarrow> unit action" where
  "run_update_merge date =
     bind (get_cleaned_fetched_pollutants_data date) (\<lambda>cleaned_fetched_data.
       bind (add_processed_fetched_data_to_existing cleaned_fetched_data) (\<lambda>updated_data.
         bind (lift (fill_missing_values updated_data)) (\<lambda>filled_data.
           save_existing_data_df AirQuality filled_data True)))"

definition run_update :: "date \<Rightarrow> unit action" where
  "run_update date =
     bind (single_fetch_data date) (\<lambda>outstanding_download_ids.
       if length (map fst outstanding_download_ids) = 0 then run_update_merge date
       else return ())"

text \<open>
  \<^verbatim>\<open>AirQualityDataManager.update_next_day\<close>.  The handler formats
  \<^verbatim>\<open>next_day_to_fetch\<close> into its message before it calls \<^verbatim>\<open>handle_error\<close>: when the
  exception was raised before that variable was assigned, the handler itself raises
  \<^verbatim>\<open>UnboundLocalError\<close>.
\<close>

definition aq_update_next_day :: "bool action" where
  "aq_update_next_day w =
     (case get_next_day_to_fetch AirQuality True w of
        (Inl e, w') \<Rightarrow> (Inl UnboundLocalError, w')
      | (Inr next_day_to_fetch, w') \<Rightarrow>
          try_except
            (bind (compare_date (\<lambda>d. sub_day (today w') < d) next_day_to_fetch) (\<lambda>not_yet.
               if not_yet then return False
               else bind (run_update (the next_day_to_fetch)) (\<lambda>_. return True)))
            (\<lambda>e. bind (handle_error e (Error_updating_air_quality next_day_to_fetch))
                   (\<lambda>_. return False)) w')"

section \<open>The bounded day-by-day loop\<close>

text \<open>
  \<^verbatim>\<open>update_to_yesterday\<close> is the same loop in \<^verbatim>\<open>AirQualityDataManager\<close> and in
  \<^verbatim>\<open>HistoricalWeatherDataManager\<close>, over the \<^verbatim>\<open>update_next_day\<close> of the class.
  \<open>attempts\<close> is the loop from the values \<^verbatim>\<open>attempt\<close> and \<^verbatim>\<open>no_fails\<close> have at its
  head; it returns what each call of \<^verbatim>\<open>update_next_day\<close> gave, in order, and the world
  the loop leaves.  An exception that \<^verbatim>\<open>update_next_day\<close> lets through ends the loop and
  is what \<^verbatim>\<open>update_to_yesterday\<close> raises.
\<close>

definition max_attempts :: nat where
  "max_attempts = 5"

function attempts :: "bool action \<Rightarrow> nat \<Rightarrow> bool \<Rightarrow> world \<Rightarrow> (exn + bool) list \<times> world" where
  "attempts update_next_day attempt no_fails w =
     (if attempt \<le> max_attempts \<and> no_fails then
        (case update_next_day w of
           (Inl e, w') \<Rightarrow> ([Inl e], w')
         | (Inr no_fails', w') \<Rightarrow>
            (case attempts update_next_day (attempt + 1) no_fails' w' of
               (outcomes, w'') \<Rightarrow> (Inr no_fails' # outcomes, w'')))
      else ([], w))"
  by pat_completeness auto
termination
  by (relation "measure (\<lambda>(update_next_day, attempt, no_fails, w). Suc max_attempts - attempt)")
    auto

definition update_to_yesterday :: "bool action \<Rightarrow> unit action" where
  "update_to_yesterday update_next_day w =
     (case attempts update_next_day 1 True w of
        (outcomes, w') \<Rightarrow>
          (case List.map_filter (\<lambda>outcome. case outcome of Inl e \<Rightarrow> Some e | Inr _ \<Rightarrow> None)
                  outcomes of
             [] \<Rightarrow> (Inr (), w')
           | e # _ \<Rightarrow> (Inl e, w')))"

definition aq_update_to_yesterday :: "unit action" where
  "aq_update_to_yesterday = update_to_yesterday aq_update_next_day"

section \<open>HistoricalWeatherDataManager\<close>

text \<open>
  \<^verbatim>\<open>get_nearest_station_ids\<close> returns the cached identifiers, or asks for the station
  nearest to each location and caches the answers when all were found.
\<close>

definition get_nearest_station_ids :: "(string \<times> string) list option action" where
  "get_nearest_station_ids w =
     (case station_ids w of
        Some ids \<Rightarrow> (Inr (Some ids), w)
      | None \<Rightarrow>
         (let nearest_station_ids = map (\<lambda>location. (location, meteostat_nearby w location)) LOCATIONS;
              fetch_success = list_all (\<lambda>ls. snd ls \<noteq> None) nearest_station_ids;
              ids = (if fetch_success
                     then Some (map (\<lambda>ls. (fst ls, the (snd ls))) nearest_station_ids)
                     else None)
          in (Inr ids, w\<lparr>station_ids := ids\<rparr>)))"

text \<open>
  The loop of \<^verbatim>\<open>fetch_hourly_data\<close> over the stations: the frames fetched so far and
  whether every one of them had rows.
\<close>

fun fetch_hourly_data_loop :: "date \<Rightarrow> (string \<times> string) list \<Rightarrow> (bool \<times> dataframe) action" where
  "fetch_hourly_data_loop date [] = return (True, [])"
| "fetch_hourly_data_loop date ((location, station_id) # ids) =
     (\<lambda>w. bind (lift (meteostat_hourly w station_id date)) (\<lambda>hourly_data_df.
        bind (fetch_hourly_data_loop date ids) (\<lambda>rest.
          return (length hourly_data_df \<noteq> 0 \<and> fst rest,
                  reset_index location (sort_key fst hourly_data_df) @ snd rest))) w)"

definition fetch_hourly_data_for_date :: "date \<Rightarrow> dataframe option action" where
  "fetch_hourly_data_for_date date =
     bind get_nearest_station_ids (\<lambda>station_ids.
       case station_ids of
         None \<Rightarrow> return None
       | Some ids \<Rightarrow>
          bind (fetch_hourly_data_loop date ids) (\<lambda>fetched.
            if \<not> fst fetched then return None else return (Some (snd fetched))))"

definition backup_file_exists :: "date \<Rightarrow> world \<Rightarrow> bool" where
  "backup_file_exists date w = (historical_weather_backups w date \<noteq> None)"

definition hw_save_backup :: "date \<Rightarrow> dataframe \<Rightarrow> unit action" where
  "hw_save_backup date hourly_data w =
     (Inr (), w\<lparr>historical_weather_backups := (historical_weather_backups w)(date \<mapsto> hourly_data)\<rparr>)"

text \<open>
  \<^verbatim>\<open>fetch_and_save_data_for_date\<close> returns \<^verbatim>\<open>True\<close>, \<^verbatim>\<open>False\<close>, or falls off its
  end (\<open>None\<close>) when nothing could be fetched.
\<close>

definition fetch_and_save_data_for_date :: "date \<Rightarrow> bool option action" where
  "fetch_and_save_data_for_date date =
     try_except
       (bind (previous_days_data_exists HistoricalWeather date True) (\<lambda>previous.
          if \<not> previous then return (Some False)
          else (\<lambda>w.
            if backup_file_exists date w then (Inr (Some True), w)
            else bind (fetch_hourly_data_for_date date) (\<lambda>hourly_data.
                   case hourly_data of
                     Some df \<Rightarrow> bind (hw_save_backup date df) (\<lambda>_. return (Some True))
                   | None \<Rightarrow> return None) w)))
       (\<lambda>e. bind (handle_error e (Error_fetching_historical_weather date))
              (\<lambda>_. return (Some False)))"

definition fetch_backedup_data :: "date \<Rightarrow> world \<Rightarrow> dataframe option" where
  "fetch_backedup_data date w = historical_weather_backups w date"

definition get_merged_new_and_existing_data :: "date \<Rightarrow> dataframe option action" where
  "get_merged_new_and_existing_data date =
     bind (get_existing_data_df HistoricalWeather True) (\<lambda>existing_data_df. (\<lambda>w.
       case fetch_backedup_data date w of
         None \<Rightarrow> (Inr None, w)
       | Some new_data \<Rightarrow>
          bind (get_existing_data_last_time HistoricalWeather True) (\<lambda>existing_data_last_time.
            if \<not> follows_on (min_ts (map Datetime new_data)) existing_data_last_time
            then return None
            else return (Some (sort_values ascending_ascending (existing_data_df @ new_data)))) w))"

definition merge_new_and_existing_data :: "date \<Rightarrow> bool action" where
  "merge_new_and_existing_data date =
     try_except
       (bind (get_merged_new_and_existing_data date) (\<lambda>merged_data.
          case merged_data of
            None \<Rightarrow> return False
          | Some merged \<Rightarrow>
             bind (lift (fill_missing_values merged)) (\<lambda>filled_data.
               bind (lift (fix_error_values filled_data)) (\<lambda>fixed_values.
                 bind (save_existing_data_df HistoricalWeather fixed_values True) (\<lambda>_.
                   return True)))))
       (\<lambda>e. bind (handle_error e (Error_adding_historical_weather date))
              (\<lambda>_. return False))"

definition hw_update_next_day :: "bool action" where
  "hw_update_next_day =
     bind (get_next_day_to_fetch HistoricalWeather True) (\<lambda>next_day_to_fetch. (\<lambda>w.
       bind (compare_date (\<lambda>d. sub_day (today w) < d) next_day_to_fetch) (\<lambda>not_yet.
         if not_yet then return False
         else bind (fetch_and_save_data_for_date (the next_day_to_fetch)) (\<lambda>fetch_success.
                if fetch_success \<noteq> Some True then return False
                else merge_new_and_existing_data (the next_day_to_fetch))) w))"

definition hw_update_to_yesterday :: "unit action" where
  "hw_update_to_yesterday = update_to_yesterday hw_update_next_day"

section \<open>WeatherForecastDataManager\<close>

text \<open>
  Python's \<^verbatim>\<open>min\<close> of the list of last times: a later element replaces the current
  minimum when it compares smaller, and no comparison with NaT holds.
\<close>

definition py_min :: "timestamp option list \<Rightarrow> timestamp option" where
  "py_min xs = fold (\<lambda>x m. case (x, m) of (Some a, Some b) \<Rightarrow> if a < b then x else m | _ \<Rightarrow> m)
                 (tl xs) (hd xs)"

definition get_last_date_current_data :: "bool \<Rightarrow> date option action" where
  "get_last_date_current_data temp =
     bind (get_existing_data_df WeatherForecast temp) (\<lambda>current_data.
       return (map_option fst
         (py_min (map (\<lambda>location.
                    max_ts (map Datetime (filter (\<lambda>r. category r = location) current_data)))
                  LOCATIONS))))"

fun fetch_data_loop :: "date \<Rightarrow> date \<Rightarrow> string list \<Rightarrow> dataframe action" where
  "fetch_data_loop start_date end_date [] = return []"
| "fetch_data_loop start_date end_date (location # locations) =
     (\<lambda>w. bind (lift (open_meteo w location start_date end_date)) (\<lambda>forecast_hourly_data_df.
        bind (fetch_data_loop start_date end_date locations) (\<lambda>rest.
          return (reset_index location forecast_hourly_data_df @ rest))) w)"

definition fetch_data :: "date \<Rightarrow> date \<Rightarrow> dataframe action" where
  "fetch_data start_date end_date = fetch_data_loop start_date end_date LOCATIONS"

definition merge_fetched_and_current_data :: "dataframe \<Rightarrow> dataframe \<Rightarrow> unit action" where
  "merge_fetched_and_current_data fetched_data current_data =
     bind (lift (fill_missing_values (forecast_merged_data fetched_data current_data)))
       (\<lambda>filled_data. save_existing_data_df WeatherForecast filled_data True)"

definition backup_fetched_data :: "dataframe \<Rightarrow> date \<Rightarrow> unit action" where
  "backup_fetched_data fetched_data start_date w =
     (Inr (), w\<lparr>weather_forecast_backups :=
                  (weather_forecast_backups w)(start_date \<mapsto> fetched_data)\<rparr>)"

definition update_current_data :: "bool action" where
  "update_current_data =
     bind (get_existing_data_df WeatherForecast True) (\<lambda>current_data.
       bind (get_last_date_current_data True) (\<lambda>last_date_current_data. (\<lambda>w.
         (let end_date = (add_day ^^ 6) (today w)
          in bind (compare_date (\<lambda>d. end_date \<le> d) last_date_current_data) (\<lambda>covered.
               if covered then return False
               else
                 (let start_date = (sub_day ^^ 5) (the last_date_current_data)
                  in bind (fetch_data start_date end_date) (\<lambda>fetched_data.
                       bind (backup_fetched_data fetched_data start_date) (\<lambda>_.
                         bind (merge_fetched_and_current_data fetched_data current_data) (\<lambda>_.
                           return True)))))) w)))"

section \<open>DataUpdater\<close>

text \<open>
  Every call of \<^verbatim>\<open>shutil\<close> takes the next entry of \<open>shutil_faults\<close>.
\<close>

definition next_fault :: "fault option action" where
  "next_fault w =
     (case shutil_faults w of
        [] \<Rightarrow> (Inr None, w)
      | f # faults \<Rightarrow> (Inr f, w\<lparr>shutil_faults := faults\<rparr>))"

text \<open>
  \<^verbatim>\<open>clear_temp_data\<close> calls \<^verbatim>\<open>shutil.rmtree\<close> when the staging directory exists.  A
  call that raises part-way leaves the directory with the files it has not removed.
\<close>

definition rmtree_temp :: "(string \<rightharpoonup> dataframe) \<Rightarrow> unit action" where
  "rmtree_temp files =
     bind next_fault (\<lambda>f w.
       case f of
         None \<Rightarrow> (Inr (), w\<lparr>timeseries_temp := None\<rparr>)
       | Some (Raises e) \<Rightarrow> (Inl e, w)
       | Some (Raises_after removed e) \<Rightarrow>
           (Inl e, w\<lparr>timeseries_temp :=
                       Some (\<lambda>fname. if removed fname then None else files fname)\<rparr>))"

definition clear_temp_data :: "unit action" where
  "clear_temp_data w =
     (case timeseries_temp w of
        None \<Rightarrow> (Inr (), w)
      | Some files \<Rightarrow> rmtree_temp files w)"

text \<open>
  \<^verbatim>\<open>create_temp_data\<close> clears the staging directory and copies the live directory to
  it with \<^verbatim>\<open>shutil.copytree\<close>, which raises before it has made the directory (when it
  cannot list the live directory or make the new one), or makes it, copies the files it
  can and raises at the end for those it could not copy.
\<close>

definition copytree_temp :: "unit action" where
  "copytree_temp =
     bind next_fault (\<lambda>f w.
       case f of
         None \<Rightarrow> (Inr (), w\<lparr>timeseries_temp := Some (timeseries w)\<rparr>)
       | Some (Raises e) \<Rightarrow> (Inl e, w)
       | Some (Raises_after copied e) \<Rightarrow>
           (Inl e, w\<lparr>timeseries_temp :=
                       Some (\<lambda>fname. if copied fname then timeseries w fname else None)\<rparr>))"

definition create_temp_data :: "unit action" where
  "create_temp_data = bind clear_temp_data (\<lambda>_. copytree_temp)"

text \<open>
  \<^verbatim>\<open>copy_temp_data_to_live\<close> copies every file of the staging directory over the file of
  the same name in the live directory, one file after the other; listing a directory
  that does not exist raises, and a copy that raises leaves the files copied before it
  overwritten.
\<close>

definition copy_temp_data_to_live :: "unit action" where
  "copy_temp_data_to_live w =
     (case timeseries_temp w of
        None \<Rightarrow> (Inl FileNotFoundError, w)
      | Some files \<Rightarrow>
          bind next_fault (\<lambda>f w.
            case f of
              None \<Rightarrow> (Inr (), w\<lparr>timeseries := timeseries w ++ files\<rparr>)
            | Some (Raises e) \<Rightarrow> (Inl e, w)
            | Some (Raises_after copied e) \<Rightarrow>
                (Inl e, w\<lparr>timeseries := timeseries w
                             ++ (\<lambda>fname. if copied fname then files fname else None)\<rparr>)) w)"

text \<open>
  \<^verbatim>\<open>update_all\<close>: \<open>update_all_try\<close> is the body of its \<^verbatim>\<open>try\<close>, in which
  \<open>update_datasets\<close> are the six statements between \<^verbatim>\<open>self.create_temp_data()\<close> and
  \<^verbatim>\<open>self.copy_temp_data_to_live()\<close>, the updates of the three data managers; the
  handler logs the exception and raises it again only under \<^verbatim>\<open>DEBUG\<close>.
\<close>

definition update_datasets :: "unit action" where
  "update_datasets =
     bind (init_manager WeatherForecast) (\<lambda>_.
       bind update_current_data (\<lambda>_.
         bind (init_manager HistoricalWeather) (\<lambda>_.
           bind hw_update_to_yesterday (\<lambda>_.
             bind (init_manager AirQuality) (\<lambda>_.
               aq_update_to_yesterday)))))"

definition update_all_try :: "unit action" where
  "update_all_try =
     bind create_temp_data (\<lambda>_.
       bind update_datasets (\<lambda>_.
         bind copy_temp_data_to_live (\<lambda>_.
           clear_temp_data)))"

definition update_all :: "unit action" where
  "update_all =
     try_except update_all_try
       (\<lambda>e. bind (logger_error (Error_on_data_update e)) (\<lambda>_ w.
          if DEBUG w then (Inl (Exception e), w) else (Inr (), w)))"

section \<open>Observations and example worlds\<close>

text \<open>The frame in the staged snapshot file of a dataset, if the file exists.\<close>

definition staged_snapshot :: "dataset \<Rightarrow> world \<Rightarrow> dataframe option" where
  "staged_snapshot ds w =
     (case timeseries_temp w of None \<Rightarrow> None | Some files \<Rightarrow> files (EXISTING_DATA_FILENAME ds))"

section \<open>AirQualityDataManager: whole-day substitution\<close>

text \<open>
  The substitution works on the strings \<^verbatim>\<open>'Polluant-Date'\<close>, a pollutant name, a space
  and a date printed as \<^verbatim>\<open>%Y-%m-%d\<close>.  \<open>str_nat\<close> is Python's \<^verbatim>\<open>str\<close> of a
  non-negative integer, \<open>str_int\<close> that of any integer, \<open>zfill\<close> the zero padding of
  \<^verbatim>\<open>%Y\<close>, \<^verbatim>\<open>%m\<close>, \<^verbatim>\<open>%d\<close> and \<^verbatim>\<open>%H\<close>; \<open>py_int\<close> is \<^verbatim>\<open>int\<close> of a string of
  decimal digits, and raises on any other string.
\<close>

definition digit :: "nat \<Rightarrow> char" where
  "digit n = char_of (48 + n)"

fun str_nat :: "nat \<Rightarrow> string" where
  "str_nat n = (if n < 10 then [digit n] else str_nat (n div 10) @ [digit (n mod 10)])"

definition str_int :: "int \<Rightarrow> string" where
  "str_int i = (if i < 0 then CHR ''-'' # str_nat (nat (- i)) else str_nat (nat i))"

definition zfill :: "nat \<Rightarrow> string \<Rightarrow> string" where
  "zfill k s = replicate (k - length s) CHR ''0'' @ s"

definition is_digit :: "char \<Rightarrow> bool" where
  "is_digit c = (48 \<le> (of_char c :: nat) \<and> (of_char c :: nat) \<le> 57)"

definition py_int :: "string \<Rightarrow> exn + int" where
  "py_int s =
     (if s \<noteq> [] \<and> list_all is_digit s
      then Inr (int (foldl (\<lambda>n c. 10 * n + (of_char c - 48)) 0 s))
      else Inl ValueError)"

definition strftime_date :: "date \<Rightarrow> string" where
  "strftime_date d = (case d of (y, m, dd) \<Rightarrow>
     zfill 4 (str_nat y) @ ''-'' @ zfill 2 (str_nat m) @ ''-'' @ zfill 2 (str_nat dd))"

definition strftime_time :: "nat \<Rightarrow> string" where
  "strftime_time h = zfill 2 (str_nat h) @ '':00:00''"

text \<open>
  \<^verbatim>\<open>pd.to_datetime\<close> of a string \<^verbatim>\<open>YYYY-MM-DD HH:00:00\<close>; it raises on a string that is
  not of this form or that names no day of the calendar.
\<close>

definition valid_date :: "date \<Rightarrow> bool" where
  "valid_date d = (case d of (y, m, dd) \<Rightarrow>
     1 \<le> m \<and> m \<le> 12 \<and> 1 \<le> dd \<and> dd \<le> days_in_month y m)"

definition to_datetime :: "string \<Rightarrow> exn + timestamp" where
  "to_datetime s =
     (if length s = 19 \<and> take 1 (drop 4 s) = ''-'' \<and> take 1 (drop 7 s) = ''-''
         \<and> take 1 (drop 10 s) = '' '' \<and> drop 13 s = '':00:00''
      then
        (case (py_int (take 4 s), py_int (take 2 (drop 5 s)), py_int (take 2 (drop 8 s)),
               py_int (take 2 (drop 11 s))) of
           (Inr y, Inr m, Inr dd, Inr h) \<Rightarrow>
             if valid_date (nat y, nat m, nat dd) \<and> h < 24
             then Inr ((nat y, nat m, nat dd), nat h) else Inl ValueError
         | _ \<Rightarrow> Inl ValueError)
      else Inl ValueError)"

text \<open>Python's \<^verbatim>\<open>s.split(sep)\<close> for a separator of one character.\<close>

fun split :: "char \<Rightarrow> string \<Rightarrow> string list" where
  "split sep [] = [[]]"
| "split sep (c # cs) =
     (if c = sep then [] # split sep cs
      else (case split sep cs of [] \<Rightarrow> [[c]] | x # xs \<Rightarrow> (c # x) # xs))"

text \<open>
  \<^verbatim>\<open>same_day_last_year\<close>.  Unpacking the split raises \<^verbatim>\<open>ValueError\<close> unless there are
  exactly two parts.
\<close>

definition same_day_last_year :: "string \<Rightarrow> exn + string" where
  "same_day_last_year polluant_date =
     (case split CHR '' '' polluant_date of
        [polluant, date] \<Rightarrow>
          (case py_int (take 4 date) of
             Inl e \<Rightarrow> Inl e
           | Inr year \<Rightarrow>
              (let month_day = drop 4 date;
                   month_day = (if month_day = ''-02-29'' then ''-02-28'' else month_day)
               in Inr (polluant @ '' '' @ str_int (year - 1) @ month_day)))
      | _ \<Rightarrow> Inl ValueError)"

text \<open>
  \<^verbatim>\<open>get_days_needing_replacement\<close>: the (pollutant, day) pairs with at least 12 rows whose
  \<^verbatim>\<open>Concentration\<close> (the only value column) is missing, in the order of the pivot
  table's index, each with its \<^verbatim>\<open>'Polluant-Date'\<close>; \<open>None\<close> when there is none.
\<close>

definition Polluant_Date :: "row \<Rightarrow> string" where
  "Polluant_Date r = category r @ '' '' @ strftime_date (fst (Datetime r))"

definition get_days_needing_replacement :: "dataframe \<Rightarrow> (string \<times> date \<times> string) list option" where
  "get_days_needing_replacement fetched_data =
     (let null_values = filter (\<lambda>r. column 0 (vals r) = None) fetched_data
      in if length null_values = 0 then None
         else
           (let days = map (\<lambda>r. (category r, fst (Datetime r))) null_values;
                count_null_values_by_day =
                  map (\<lambda>k. (k, length (filter (\<lambda>k'. k' = k) days))) (levels days);
                pollutant_days_to_copy =
                  map fst (filter (\<lambda>kc. 12 \<le> snd kc) count_null_values_by_day)
            in if length pollutant_days_to_copy = 0 then None
               else Some (map (\<lambda>pd. (fst pd, snd pd, fst pd @ '' '' @ strftime_date (snd pd)))
                            pollutant_days_to_copy)))"

text \<open>
  \<^verbatim>\<open>get_data_without_days_to_replace\<close>: the left merge on \<^verbatim>\<open>'Polluant-Date'\<close> keeps the
  fetched rows that match no day to copy.  A frame that carries the column
  \<^verbatim>\<open>'Polluant-Date'\<close> is a list of rows paired with it.
\<close>

definition get_data_without_days_to_replace ::
    "dataframe \<Rightarrow> (string \<times> date \<times> string) list \<Rightarrow> (row \<times> string) list" where
  "get_data_without_days_to_replace fetched_data pollutant_days_to_copy =
     (let fetched = map (\<lambda>r. (r, Polluant_Date r)) fetched_data
      in filter (\<lambda>rk. snd rk \<notin> set (map (\<lambda>pdk. snd (snd pdk)) pollutant_days_to_copy)) fetched)"

text \<open>
  \<^verbatim>\<open>replace_copied_days_data\<close>: for each day to copy, the existing rows whose
  \<^verbatim>\<open>'Polluant-Date'\<close> is that of the same day last year, their \<^verbatim>\<open>Datetime\<close> rebuilt from
  the last ten characters of the day's \<^verbatim>\<open>'Polluant-Date'\<close> and their own time of day.
\<close>

definition last10 :: "string \<Rightarrow> string" where
  "last10 s = drop (length s - 10) s"

fun copy_rows :: "string \<Rightarrow> (row \<times> string) list \<Rightarrow> exn + (row \<times> string) list" where
  "copy_rows polluant_date [] = Inr []"
| "copy_rows polluant_date ((r, k) # data_to_copy) =
     (case to_datetime (last10 polluant_date @ '' '' @ strftime_time (snd (Datetime r))) of
        Inl e \<Rightarrow> Inl e
      | Inr t \<Rightarrow>
         (case copy_rows polluant_date data_to_copy of
            Inl e \<Rightarrow> Inl e
          | Inr rest \<Rightarrow>
             Inr ((r\<lparr>Datetime := t\<rparr>, take (length k - 10) k @ last10 polluant_date) # rest)))"

fun replace_copied_days_loop ::
    "(row \<times> string) list \<Rightarrow> string list \<Rightarrow> exn + (row \<times> string) list" where
  "replace_copied_days_loop existing_copy [] = Inr []"
| "replace_copied_days_loop existing_copy (polluant_date # polluant_dates) =
     (case same_day_last_year polluant_date of
        Inl e \<Rightarrow> Inl e
      | Inr last_year \<Rightarrow>
         (case copy_rows polluant_date (filter (\<lambda>rk. snd rk = last_year) existing_copy) of
            Inl e \<Rightarrow> Inl e
          | Inr data_to_copy \<Rightarrow>
             (case replace_copied_days_loop existing_copy polluant_dates of
                Inl e \<Rightarrow> Inl e
              | Inr rest \<Rightarrow> Inr (data_to_copy @ rest))))"

definition replace_copied_days_data ::
    "dataframe \<Rightarrow> (row \<times> string) list \<Rightarrow> (string \<times> date \<times> string) list \<Rightarrow> exn + dataframe" where
  "replace_copied_days_data existing fetched_data_merged_without_days_to_copy
       pollutant_days_to_copy =
     (let existing_copy = map (\<lambda>r. (r, Polluant_Date r)) existing
      in case replace_copied_days_loop existing_copy
                (map (\<lambda>pdk. snd (snd pdk)) pollutant_days_to_copy) of
           Inl e \<Rightarrow> Inl e
         | Inr copied \<Rightarrow>
            Inr (map fst (sort_values (\<lambda>a b. ascending_ascending (fst a) (fst b))
                            (fetched_data_merged_without_days_to_copy @ copied))))"

section \<open>AirQualityDataManager: the filled data\<close>

text \<open>
  \<^verbatim>\<open>get_data_filled_with_whole_days\<close> and \<^verbatim>\<open>get_filled_data\<close>.  The existing data is the
  live snapshot.  No function of the module calls \<^verbatim>\<open>get_filled_data\<close>; in particular
  \<^verbatim>\<open>run_update\<close> does not.
\<close>

definition get_data_filled_with_whole_days :: "dataframe \<Rightarrow> dataframe action" where
  "get_data_filled_with_whole_days data =
     (case get_days_needing_replacement data of
        None \<Rightarrow> return data
      | Some pollutant_days_to_copy \<Rightarrow>
         bind (get_existing_data_df AirQuality False) (\<lambda>existing_data.
           lift (replace_copied_days_data existing_data
                   (get_data_without_days_to_replace data pollutant_days_to_copy)
                   pollutant_days_to_copy)))"

definition get_filled_data :: "dataframe \<Rightarrow> dataframe action" where
  "get_filled_data data = get_data_filled_with_whole_days data"

section \<open>Vocabulary of the whole-day substitution\<close>

text \<open>
  The digits that \<^verbatim>\<open>%m\<close>, \<^verbatim>\<open>%d\<close>, \<^verbatim>\<open>%H\<close> and \<^verbatim>\<open>%Y\<close> print for a number below 100
  and below 10000.
\<close>

definition two :: "nat \<Rightarrow> string" where
  "two n = [digit (n div 10), digit (n mod 10)]"

definition four :: "nat \<Rightarrow> string" where
  "four n = [digit (n div 1000), digit (n div 100 mod 10), digit (n div 10 mod 10), digit (n mod 10)]"

text \<open>
  A timestamp of a calendar day in a year of four digits after 1000, at a full hour; a
  frame whose timestamps are such and whose category names hold no space; the same for
  a (pollutant, day) pair.  \<open>key_of\<close> is the \<^verbatim>\<open>'Polluant-Date'\<close> of a pair.
\<close>

definition valid_timestamp :: "timestamp \<Rightarrow> bool" where
  "valid_timestamp t = (case t of ((y, m, dd), h) \<Rightarrow>
     1000 < y \<and> y \<le> 9999 \<and> valid_date (y, m, dd) \<and> h < 24)"

definition valid_frame :: "dataframe \<Rightarrow> bool" where
  "valid_frame df =
     list_all (\<lambda>r. valid_timestamp (Datetime r) \<and> CHR '' '' \<notin> set (category r)) df"

definition valid_key :: "string \<times> date \<Rightarrow> bool" where
  "valid_key pd = (case pd of (p, (y, m, dd)) \<Rightarrow>
     1000 < y \<and> y \<le> 9999 \<and> valid_date (y, m, dd) \<and> CHR '' '' \<notin> set p)"

definition key_of :: "string \<times> date \<Rightarrow> string" where
  "key_of pd = fst pd @ '' '' @ strftime_date (snd pd)"

text \<open>
  The rows of a frame for pollutant \<open>p\<close> on day \<open>d\<close>, how many of them miss their
  \<^verbatim>\<open>Concentration\<close>, the same calendar day one year earlier (28 February for
  29 February), and rows moved to day \<open>d\<close>, each keeping its hour.
\<close>

definition rows_of_day :: "string \<Rightarrow> date \<Rightarrow> dataframe \<Rightarrow> dataframe" where
  "rows_of_day p d df = filter (\<lambda>r. category r = p \<and> fst (Datetime r) = d) df"

definition missing_hours :: "string \<Rightarrow> date \<Rightarrow> dataframe \<Rightarrow> nat" where
  "missing_hours p d df = length (filter (\<lambda>r. column 0 (vals r) = None) (rows_of_day p d df))"

definition last_year :: "date \<Rightarrow> date" where
  "last_year d = (case d of (y, m, dd) \<Rightarrow> (y - 1, m, if m = 2 \<and> dd = 29 then 28 else dd))"

definition moved_to_day :: "date \<Rightarrow> dataframe \<Rightarrow> dataframe" where
  "moved_to_day d df = map (\<lambda>r. r\<lparr>Datetime := (d, snd (Datetime r))\<rparr>) df"

text \<open>
  Example worlds.  \<open>empty_world\<close> has no files and no reachable service; \<open>merge_world\<close>
  has a staged snapshot of each dataset, the five raw pollutant files of 8 March 2024
  (read by \<open>example_read_csv\<close>) and the raw weather file of that day.
\<close>

definition empty_world :: world where
  "empty_world =
     \<lparr>timeseries = Map.empty, timeseries_temp = None, pollutants_backups = Map.empty,
      historical_weather_backups = Map.empty, weather_forecast_backups = Map.empty,
      geodair = [], geodair_log = [], read_csv = (\<lambda>_. []),
      open_meteo = (\<lambda>_ _ _. Inl ConnectionError), meteostat_nearby = (\<lambda>_. None),
      meteostat_hourly = (\<lambda>_ _. Inl ConnectionError), today = (2024, 3, 10), DEBUG = False,
      existing_data = (\<lambda>_. None), temp_existing_data = (\<lambda>_. None), station_ids = None,
      error_log = [], shutil_faults = []\<rparr>"

definition example_read_csv :: "string \<Rightarrow> pollutant_row list" where
  "example_read_csv content =
     [\<lparr>Date_de_debut = ((2024, 3, 8), 0), Polluant = content, nom_site = Pres_d_Arenes,
        valeur_brute = Some 5\<rparr>,
      \<lparr>Date_de_debut = ((2024, 3, 8), 0), Polluant = content, nom_site = ''MARSEILLE 5 AVENUES'',
        valeur_brute = Some 7\<rparr>,
      \<lparr>Date_de_debut = ((2024, 3, 8), 1), Polluant = content, nom_site = ''Pompignane'',
        valeur_brute = None\<rparr>]"

definition example_forecast :: dataframe where
  "example_forecast =
     [\<lparr>category = ''Marseille'', Datetime = ((2024, 3, 7), 23), vals = [Some 1, Some 2]\<rparr>,
      \<lparr>category = ''Montpellier'', Datetime = ((2024, 3, 7), 23), vals = [Some 3, Some 4]\<rparr>]"

definition example_fetched :: dataframe where
  "example_fetched =
     [\<lparr>category = ''Montpellier'', Datetime = ((2024, 3, 7), 23), vals = [Some 5, None]\<rparr>,
      \<lparr>category = ''Montpellier'', Datetime = ((2024, 3, 8), 0), vals = [Some 7, Some 8]\<rparr>,
      \<lparr>category = ''Marseille'', Datetime = ((2024, 3, 8), 0), vals = [Some 9, Some 10]\<rparr>]"

definition example_pollutants :: dataframe where
  "example_pollutants =
     [\<lparr>category = ''NO2'', Datetime = ((2024, 3, 7), 23), vals = [Some 11]\<rparr>,
      \<lparr>category = ''O3'', Datetime = ((2024, 3, 7), 23), vals = [Some 12]\<rparr>]"

definition example_weather :: dataframe where
  "example_weather =
     [\<lparr>category = ''Marseille'', Datetime = ((2024, 3, 7), 23),
        vals = [Some 4, Some 1013, Some 80, Some 12, Some 180, Some 9]\<rparr>,
      \<lparr>category = ''Montpellier'', Datetime = ((2024, 3, 7), 23),
        vals = [Some 5, Some 1012, Some 70, Some 13, Some 170, Some 8]\<rparr>]"

definition example_new_weather :: dataframe where
  "example_new_weather =
     [\<lparr>category = ''Montpellier'', Datetime = ((2024, 3, 8), 0),
        vals = [Some (- 20), Some 1012, Some 104, None, Some 170, Some 8]\<rparr>,
      \<lparr>category = ''Marseille'', Datetime = ((2024, 3, 8), 0),
        vals = [Some 4, Some 1013, Some 80, Some 12, Some 180, Some 9]\<rparr>]"

definition merge_world :: world where
  "merge_world = empty_world
     \<lparr>timeseries_temp := Some [EXISTING_DATA_FILENAME WeatherForecast \<mapsto> example_forecast,
                              EXISTING_DATA_FILENAME AirQuality \<mapsto> example_pollutants,
                              EXISTING_DATA_FILENAME HistoricalWeather \<mapsto> example_weather],
      pollutants_backups :=
        (\<lambda>k. if snd k = (2024, 3, 8) \<and> fst k \<in> set POLLUTANTS then Some (fst k) else None),
      read_csv := example_read_csv,
      historical_weather_backups := [(2024, 3, 8) \<mapsto> example_new_weather]\<rparr>"

text \<open>
  \<open>cached_world\<close>: the five raw pollutant files of 8 March 2024 exist.
  \<open>no2_missing_world\<close>: the file of NO2 is missing and the server answers every request
  with status 500.  \<open>late_weather_world\<close>: the raw weather file of 8 March 2024 begins at
  01:00 while the staged snapshot ends on 7 March at 23:00.
\<close>

definition cached_world :: world where
  "cached_world = empty_world\<lparr>pollutants_backups :=
     (\<lambda>k. if snd k = (2024, 3, 8) \<and> fst k \<in> set POLLUTANTS then Some ''Date'' else None)\<rparr>"

definition no2_missing_world :: world where
  "no2_missing_world = cached_world
     \<lparr>pollutants_backups := (pollutants_backups cached_world)((''NO2'', (2024, 3, 8)) := None),
      geodair := [\<lparr>status_code = 500, response_text = ''''\<rparr>,
                  \<lparr>status_code = 500, response_text = ''''\<rparr>]\<rparr>"

definition late_weather :: dataframe where
  "late_weather =
     [\<lparr>category = ''Montpellier'', Datetime = ((2024, 3, 8), 1),
        vals = [Some 5, Some 1012, Some 70, Some 13, Some 170, Some 8]\<rparr>,
      \<lparr>category = ''Marseille'', Datetime = ((2024, 3, 8), 1),
        vals = [Some 4, Some 1013, Some 80, Some 12, Some 180, Some 9]\<rparr>]"

definition late_weather_world :: world where
  "late_weather_world =
     merge_world\<lparr>historical_weather_backups := [(2024, 3, 8) \<mapsto> late_weather]\<rparr>"

definition gap_frame :: dataframe where
  "gap_frame =
     [\<lparr>category = ''NO2'', Datetime = ((2024, 3, 8), 0), vals = [None]\<rparr>,
      \<lparr>category = ''NO2'', Datetime = ((2024, 3, 8), 1), vals = [None]\<rparr>,
      \<lparr>category = ''NO2'', Datetime = ((2024, 3, 8), 2), vals = [Some 4]\<rparr>,
      \<lparr>category = ''O3'', Datetime = ((2024, 3, 8), 0), vals = [Some 6]\<rparr>]"

text \<open>
  In column \<open>j\<close> of a category's series, every value up to position \<open>i\<close> is missing.
\<close>

definition leading_gap :: "nat \<Rightarrow> nat \<Rightarrow> category_df \<Rightarrow> bool" where
  "leading_gap j i cdf = (i < length cdf \<and> (\<forall>i' \<le> i. column j (snd (cdf ! i')) = None))"


text \<open>
  \<open>commit_world\<close>: the three live snapshots exist; the forecast service answers; the
  weather snapshot is up to date; the pollutant snapshot ends on 7 March 2024, the raw file
  of NO2 for 8 March is missing and the server answers every request with status 500.
  \<open>offline_world\<close> is the same world with the forecast service unreachable.
\<close>

definition current_weather :: dataframe where
  "current_weather =
     [\<lparr>category = ''Marseille'', Datetime = ((2024, 3, 9), 23),
        vals = [Some 4, Some 1013, Some 80, Some 12, Some 180, Some 9]\<rparr>,
      \<lparr>category = ''Montpellier'', Datetime = ((2024, 3, 9), 23),
        vals = [Some 5, Some 1012, Some 70, Some 13, Some 170, Some 8]\<rparr>]"

definition commit_world :: world where
  "commit_world = empty_world
     \<lparr>timeseries := [EXISTING_DATA_FILENAME WeatherForecast \<mapsto> example_forecast,
                      EXISTING_DATA_FILENAME HistoricalWeather \<mapsto> current_weather,
                      EXISTING_DATA_FILENAME AirQuality \<mapsto> example_pollutants],
      pollutants_backups :=
        (\<lambda>k. if snd k = (2024, 3, 8) \<and> fst k \<in> set [''O3'', ''PM10'', ''PM2.5'', ''SO2'']
              then Some (fst k) else None),
      geodair := [\<lparr>status_code = 500, response_text = ''''\<rparr>,
                  \<lparr>status_code = 500, response_text = ''''\<rparr>],
      read_csv := example_read_csv,
      open_meteo := (\<lambda>location start_date end_date.
                       Inr [(((2024, 3, 8), 0), [Some 9, Some 10])])\<rparr>"

definition offline_world :: world where
  "offline_world = commit_world\<lparr>open_meteo := (\<lambda>_ _ _. Inl ConnectionError)\<rparr>"

text \<open>
  \<open>copy_fault_world\<close> is \<open>commit_world\<close> on a file system that lets \<^verbatim>\<open>shutil.copytree\<close>
  succeed and then makes the copy of the staged files raise \<^verbatim>\<open>OSError\<close> once the
  forecast snapshot has been copied.
\<close>

definition copy_fault_world :: world where
  "copy_fault_world = commit_world
     \<lparr>shutil_faults :=
        [None, Some (Raises_after (\<lambda>fname. fname = EXISTING_DATA_FILENAME WeatherForecast)
                       OSError)]\<rparr>"

text \<open>
  Vocabulary of the proofs about \<^verbatim>\<open>update_all\<close>: \<open>staged_run w w'\<close> says that from
  \<open>w\<close> to \<open>w'\<close> no live file and not the configuration has changed and an existing
  staging directory still exists; an operation \<open>keeps\<close> this when it always holds
  between the world it is given and the one it leaves.
\<close>

definition staged_run :: "world \<Rightarrow> world \<Rightarrow> bool" where
  "staged_run w w' =
     (timeseries w' = timeseries w \<and> DEBUG w' = DEBUG w \<and>
      (timeseries_temp w \<noteq> None \<longrightarrow> timeseries_temp w' \<noteq> None))"

definition keeps :: "'a action \<Rightarrow> bool" where
  "keeps m = (\<forall>w. staged_run w (snd (m w)))"

text \<open>
  \<open>sparse_day_world\<close>: the live and the staged pollutant snapshot hold NO2 at 00:00 on
  28 February 2023 and at 23:00 on 28 February 2024; the five raw files of
  29 February 2024 exist, that of NO2 with thirteen hours of which the first twelve have
  no value, the others with no rows.  \<open>sparse_day_fetched\<close> is the cleaned data of that
  day.
\<close>

definition sparse_day_pollutants :: dataframe where
  "sparse_day_pollutants =
     [\<lparr>category = ''NO2'', Datetime = ((2023, 2, 28), 0), vals = [Some 50]\<rparr>,
      \<lparr>category = ''NO2'', Datetime = ((2024, 2, 28), 23), vals = [Some 10]\<rparr>]"

definition sparse_day_read_csv :: "string \<Rightarrow> pollutant_row list" where
  "sparse_day_read_csv content =
     (if content = ''NO2'' then
        map (\<lambda>h. \<lparr>Date_de_debut = ((2024, 2, 29), h), Polluant = ''NO2'', nom_site = ''Pompignane'',
                    valeur_brute = (if h < 12 then None else Some 4)\<rparr>) [0..<13]
      else [])"

definition sparse_day_fetched :: dataframe where
  "sparse_day_fetched =
     map (\<lambda>h. \<lparr>category = ''NO2'', Datetime = ((2024, 2, 29), h),
                 vals = [if h < 12 then None else Some 4]\<rparr>) [0..<13]"

definition sparse_day_world :: world where
  "sparse_day_world = empty_world
     \<lparr>timeseries := [EXISTING_DATA_FILENAME AirQuality \<mapsto> sparse_day_pollutants],
      timeseries_temp := Some [EXISTING_DATA_FILENAME AirQuality \<mapsto> sparse_day_pollutants],
      pollutants_backups :=
        (\<lambda>k. if snd k = (2024, 2, 29) \<and> fst k \<in> set POLLUTANTS then Some (fst k) else None),
      read_csv := sparse_day_read_csv\<rparr>"

section \<open>The loop is bounded and stops at the first failure\<close>

declare attempts.simps [simp del]

lemma attempts_stop:
  "\<not> (attempt \<le> max_attempts \<and> no_fails) \<Longrightarrow> attempts update_next_day attempt no_fails w = ([], w)"
  by (subst attempts.simps) auto

lemma attempts_raise:
  "attempt \<le> max_attempts \<and> no_fails \<Longrightarrow> update_next_day w = (Inl e, w') \<Longrightarrow>
   attempts update_next_day attempt no_fails w = ([Inl e], w')"
  by (subst attempts.simps) simp

lemma attempts_next:
  "attempt \<le> max_attempts \<and> no_fails \<Longrightarrow> update_next_day w = (Inr b, w') \<Longrightarrow>
   attempts update_next_day attempt no_fails w =
     (Inr b # fst (attempts update_next_day (attempt + 1) b w'),
      snd (attempts update_next_day (attempt + 1) b w'))"
  by (subst attempts.simps) (simp split: prod.splits)

lemma attempts_length:
  "length (fst (attempts update_next_day attempt no_fails w)) \<le> Suc max_attempts - attempt"
proof (induction update_next_day attempt no_fails w rule: attempts.induct)
  case (1 update_next_day attempt no_fails w)
  show ?case
  proof (cases "attempt \<le> max_attempts \<and> no_fails")
    case False
    then show ?thesis by (simp add: attempts_stop)
  next
    case True
    show ?thesis
    proof (cases "update_next_day w")
      case (Pair res w')
      show ?thesis
      proof (cases res)
        case (Inl e)
        with Pair have "update_next_day w = (Inl e, w')" by simp
        then have "attempts update_next_day attempt no_fails w = ([Inl e], w')"
          using True by (rule_tac attempts_raise) simp_all
        then show ?thesis using True by (auto simp: Suc_diff_le)
      next
        case (Inr b)
        from "1.IH" [OF True Pair [symmetric] Inr]
        have "length (fst (attempts update_next_day (attempt + 1) b w'))
                \<le> Suc max_attempts - (attempt + 1)" .
        moreover from Pair Inr have "update_next_day w = (Inr b, w')" by simp
        ultimately show ?thesis
          using attempts_next [of attempt no_fails update_next_day w b w'] True
          by (auto simp: Suc_diff_le)
      qed
    qed
  qed
qed

lemma attempts_butlast:
  "list_all (\<lambda>outcome. outcome = Inr True)
     (butlast (fst (attempts update_next_day attempt no_fails w)))"
proof (induction update_next_day attempt no_fails w rule: attempts.induct)
  case (1 update_next_day attempt no_fails w)
  show ?case
  proof (cases "attempt \<le> max_attempts \<and> no_fails")
    case False
    then show ?thesis by (simp add: attempts_stop)
  next
    case True
    show ?thesis
    proof (cases "update_next_day w")
      case (Pair res w')
      show ?thesis
      proof (cases res)
        case (Inl e)
        with Pair have "update_next_day w = (Inl e, w')" by simp
        then have "attempts update_next_day attempt no_fails w = ([Inl e], w')"
          using True by (rule_tac attempts_raise) simp_all
        then show ?thesis by simp
      next
        case (Inr b)
        from "1.IH" [OF True Pair [symmetric] Inr]
        have IH: "list_all (\<lambda>outcome. outcome = Inr True)
                    (butlast (fst (attempts update_next_day (attempt + 1) b w')))" .
        from Pair Inr have step: "update_next_day w = (Inr b, w')" by simp
        show ?thesis
        proof (cases b)
          case True
          with IH show ?thesis
            using attempts_next [of attempt no_fails update_next_day w b w']
              \<open>attempt \<le> max_attempts \<and> no_fails\<close> step by simp
        next
          case False
          then have "attempts update_next_day (attempt + 1) b w' = ([], w')"
            by (simp add: attempts_stop)
          then show ?thesis
            using attempts_next [of attempt no_fails update_next_day w b w']
              \<open>attempt \<le> max_attempts \<and> no_fails\<close> step by simp
        qed
      qed
    qed
  qed
qed

text \<open>
  Claim C7.  From any world and for any behaviour of \<^verbatim>\<open>update_next_day\<close>, one call of
  \<^verbatim>\<open>update_to_yesterday\<close> (of the pollutant or of the historical-weather manager, which
  run this same loop) calls \<^verbatim>\<open>update_next_day\<close> at most 5 times, and every call but
  the last one returned \<^verbatim>\<open>True\<close>: after a call that reports failure or raises, no
  further day is attempted.
\<close>

theorem update_to_yesterday_bounded:
  "length (fst (attempts update_next_day 1 True w)) \<le> 5 \<and>
   list_all (\<lambda>outcome. outcome = Inr True) (butlast (fst (attempts update_next_day 1 True w)))"
  using attempts_length [of update_next_day 1 True w] attempts_butlast [of update_next_day 1 True w]
  by (simp add: max_attempts_def)

section \<open>The pollutant fetch phase\<close>

lemma get_pollutants_to_request_cached:
  "list_all (\<lambda>pollutant. download_file_exists date pollutant w) POLLUTANTS \<Longrightarrow>
   get_pollutants_to_request date w = []"
  by (simp add: get_pollutants_to_request_def filter_empty_conv list_all_iff)

text \<open>
  Claim C9.  For a date whose raw file exists for each of the five pollutants, the fetch
  phase \<^verbatim>\<open>single_fetch_data\<close> returns no outstanding identifier and leaves the world as
  it was: no request is sent to the server (the log and the pending answers are
  unchanged), no backup file is written.  Running it twice is the same no-op.
\<close>

theorem fetch_phase_cached_no_op:
  assumes "list_all (\<lambda>pollutant. download_file_exists date pollutant w) POLLUTANTS"
  shows "single_fetch_data date w = (Inr [], w) \<and>
         bind (single_fetch_data date) (\<lambda>_. single_fetch_data date) w = (Inr [], w)"
proof -
  have "fetch_required_pollutant_ids date w = (Inr [], w)"
    using get_pollutants_to_request_cached [OF assms]
    by (simp add: fetch_required_pollutant_ids_def fetch_pollutant_download_ids_def return_def)
  then have "single_fetch_data date w = (Inr [], w)"
    by (simp add: single_fetch_data_def bind_def return_def)
  then show ?thesis by (simp add: bind_def)
qed

lemma cached_world_cached:
  "list_all (\<lambda>pollutant. download_file_exists (2024, 3, 8) pollutant cached_world) POLLUTANTS"
  by (simp add: POLLUTANTS_def download_file_exists_def cached_world_def)

theorem fetch_phase_cached_no_op_witness:
  "list_all (\<lambda>pollutant. download_file_exists (2024, 3, 8) pollutant cached_world) POLLUTANTS \<and>
   single_fetch_data (2024, 3, 8) cached_world = (Inr [], cached_world) \<and>
   bind (single_fetch_data (2024, 3, 8)) (\<lambda>_. single_fetch_data (2024, 3, 8)) cached_world
     = (Inr [], cached_world)"
  using fetch_phase_cached_no_op [OF cached_world_cached] cached_world_cached
  by simp

text \<open>
  Claim C1 fails on the code at this input.  With the raw file of NO2 missing and the
  server refusing every identifier request, the fetch phase ends with that file still
  missing and returns an empty dictionary; \<^verbatim>\<open>run_update\<close> tests only that dictionary,
  so it runs its merge body, which raises \<^verbatim>\<open>FileNotFoundError\<close> when it reads the
  missing file.
\<close>

theorem run_update_merges_with_missing_file:
  "\<not> download_file_exists (2024, 3, 8) ''NO2''
       (snd (single_fetch_data (2024, 3, 8) no2_missing_world)) \<and>
   fst (single_fetch_data (2024, 3, 8) no2_missing_world) = Inr [] \<and>
   run_update (2024, 3, 8) no2_missing_world =
     run_update_merge (2024, 3, 8) (snd (single_fetch_data (2024, 3, 8) no2_missing_world)) \<and>
   fst (run_update (2024, 3, 8) no2_missing_world) = Inl FileNotFoundError"
proof -
  have missing: "\<not> download_file_exists (2024, 3, 8) ''NO2''
       (snd (single_fetch_data (2024, 3, 8) no2_missing_world))"
    by code_simp
  have ids: "fst (single_fetch_data (2024, 3, 8) no2_missing_world) = Inr []"
    by code_simp
  then have body: "run_update (2024, 3, 8) no2_missing_world =
     run_update_merge (2024, 3, 8) (snd (single_fetch_data (2024, 3, 8) no2_missing_world))"
    by (auto simp: run_update_def bind_def split: prod.splits sum.splits)
  have raised: "fst (run_update (2024, 3, 8) no2_missing_world) = Inl FileNotFoundError"
    by code_simp
  from missing ids body raised show ?thesis by blast
qed

section \<open>What the merges save\<close>

lemma map_fst_interpolate: "map fst (interpolate method w cdf) = map fst cdf"
  unfolding interpolate_def Let_def by (rule nth_equalityI) simp_all

lemma map_fst_fill_category: "map fst (fill_category w cdf) = map fst cdf"
  by (simp add: fill_category_def Let_def map_fst_interpolate)

lemma map_key_reset_index: "map key (reset_index c cdf) = map (Pair c) (map fst cdf)"
  by (simp add: reset_index_def key_def o_def)

lemma map_key_filled:
  "map key (concat (map (\<lambda>cd. reset_index (fst cd) (fill_category w (snd cd))) (pivot_table df)))
   = List.product (levels (map category df)) (levels (map Datetime df))"
proof -
  have "map key (concat (map (\<lambda>cd. reset_index (fst cd) (fill_category w (snd cd))) (map (\<lambda>c. (c, f c)) cs)))
    = concat (map (\<lambda>c. map (Pair c) (map fst (f c))) cs)" for cs and f :: "string \<Rightarrow> category_df"
    by (induction cs) (simp_all add: map_key_reset_index map_fst_fill_category)
  then show ?thesis
    by (simp add: pivot_table_def o_def product_concat_map)
qed

lemma sorted_product:
  "sorted xs \<Longrightarrow> distinct xs \<Longrightarrow> sorted ys \<Longrightarrow> sorted (List.product xs ys)"
proof (induction xs)
  case Nil
  then show ?case by simp
next
  case (Cons x xs)
  have "sorted (map (Pair x) ys)" using Cons.prems(3)
    by (induction ys) auto
  with Cons show ?case
    by (auto simp: sorted_append less_le)
qed

lemma sorted_levels: "sorted (levels xs)" and distinct_levels: "distinct (levels xs)"
  by (simp_all add: levels_def)

lemma fill_missing_values_keys:
  assumes "fill_missing_values df = Inr out"
  shows "map key out = List.product (levels (map category df)) (levels (map Datetime df))"
  using assms by (auto simp: fill_missing_values_def map_key_filled split: if_splits)

lemma fill_missing_values_sorted:
  "fill_missing_values df = Inr out \<Longrightarrow> sorted (map key out)"
  by (simp add: fill_missing_values_keys sorted_product sorted_levels distinct_levels)

lemma fill_missing_values_distinct:
  "fill_missing_values df = Inr out \<Longrightarrow> distinct (map key out)"
  by (simp add: fill_missing_values_keys distinct_product distinct_levels)

lemma fix_error_values_keys:
  "fix_error_values df = Inr out \<Longrightarrow> map key out = map key df"
  by (auto simp: fix_error_values_def Let_def key_def split: if_splits)

lemma bind_Inr:
  "bind m f w = (Inr y, w') \<Longrightarrow> \<exists>x w1. m w = (Inr x, w1) \<and> f x w1 = (Inr y, w')"
  by (auto simp: bind_def split: prod.splits sum.splits)

lemma lift_Inr: "lift r w = (Inr y, w') \<Longrightarrow> r = Inr y \<and> w' = w"
  by (simp add: lift_def)

lemma save_temp_staged:
  "save_existing_data_df ds df True w = (Inr u, w') \<Longrightarrow> staged_snapshot ds w' = Some df"
  by (auto simp: save_existing_data_df_def staged_snapshot_def Let_def split: option.splits)

lemma forecast_saved:
  assumes "merge_fetched_and_current_data fetched_data current_data w = (Inr (), w')"
  shows "\<exists>saved. staged_snapshot WeatherForecast w' = Some saved \<and>
           fill_missing_values (forecast_merged_data fetched_data current_data) = Inr saved"
  using assms unfolding merge_fetched_and_current_data_def
  by (auto dest!: bind_Inr lift_Inr save_temp_staged)

lemma pollutant_saved:
  assumes "run_update_merge date w = (Inr (), w')"
  shows "\<exists>saved updated_data. staged_snapshot AirQuality w' = Some saved \<and>
           fill_missing_values updated_data = Inr saved"
  using assms unfolding run_update_merge_def
  by (auto dest!: bind_Inr lift_Inr save_temp_staged)

lemma handle_error_not_True:
  "bind (handle_error e message) (\<lambda>_. return False) w \<noteq> (Inr True, w')"
  by (simp add: bind_def handle_error_def logger_error_def return_def)

lemma weather_saved:
  assumes "merge_new_and_existing_data date w = (Inr True, w')"
  shows "\<exists>saved filled merged. staged_snapshot HistoricalWeather w' = Some saved \<and>
           fill_missing_values merged = Inr filled \<and> fix_error_values filled = Inr saved"
proof -
  let ?body = "bind (get_merged_new_and_existing_data date) (\<lambda>merged_data.
          case merged_data of
            None \<Rightarrow> return False
          | Some merged \<Rightarrow>
             bind (lift (fill_missing_values merged)) (\<lambda>filled_data.
               bind (lift (fix_error_values filled_data)) (\<lambda>fixed_values.
                 bind (save_existing_data_df HistoricalWeather fixed_values True) (\<lambda>_.
                   return True))))"
  from assms have "?body w = (Inr True, w')"
    unfolding merge_new_and_existing_data_def try_except_def
    by (auto simp: handle_error_not_True split: prod.splits sum.splits)
  then obtain merged_data wm where
    m: "(case merged_data of None \<Rightarrow> return False
         | Some merged \<Rightarrow>
             bind (lift (fill_missing_values merged)) (\<lambda>filled_data.
               bind (lift (fix_error_values filled_data)) (\<lambda>fixed_values.
                 bind (save_existing_data_df HistoricalWeather fixed_values True) (\<lambda>_.
                   return True)))) wm = (Inr True, w')"
    by (auto dest!: bind_Inr)
  then obtain merged where "merged_data = Some merged"
    by (cases merged_data) (auto simp: return_def)
  with m show ?thesis
    by (fastforce dest!: bind_Inr lift_Inr simp: return_def dest: save_temp_staged)
qed

lemma merge_world_forecast:
  "fst (merge_fetched_and_current_data example_fetched example_forecast merge_world) = Inr ()"
  by code_simp

lemma merge_world_pollutants: "fst (run_update_merge (2024, 3, 8) merge_world) = Inr ()"
  by code_simp

lemma merge_world_weather:
  "fst (merge_new_and_existing_data (2024, 3, 8) merge_world) = Inr True"
  by code_simp

text \<open>
  Claim C4.  Whenever a merge saves a snapshot (the forecast merge, the pollutant merge of
  \<^verbatim>\<open>run_update\<close>, the historical-weather merge), the saved snapshot is sorted by
  (category, timestamp), ascending in the category and in the timestamp.  The forecast
  merge sorts the location descending, but \<^verbatim>\<open>fill_missing_values\<close> rebuilds the frame
  from the pivot table, whose index is ascending in both levels.
\<close>

theorem merge_saves_sorted:
  "(fst (merge_fetched_and_current_data fetched_data current_data w1) = Inr () \<longrightarrow>
      (\<exists>saved. staged_snapshot WeatherForecast
                 (snd (merge_fetched_and_current_data fetched_data current_data w1)) = Some saved
               \<and> sorted (map key saved))) \<and>
   (fst (run_update_merge date w2) = Inr () \<longrightarrow>
      (\<exists>saved. staged_snapshot AirQuality (snd (run_update_merge date w2)) = Some saved
               \<and> sorted (map key saved))) \<and>
   (fst (merge_new_and_existing_data day w3) = Inr True \<longrightarrow>
      (\<exists>saved. staged_snapshot HistoricalWeather (snd (merge_new_and_existing_data day w3))
                 = Some saved
               \<and> sorted (map key saved)))"
proof (intro conjI impI)
  assume "fst (merge_fetched_and_current_data fetched_data current_data w1) = Inr ()"
  then have "merge_fetched_and_current_data fetched_data current_data w1
      = (Inr (), snd (merge_fetched_and_current_data fetched_data current_data w1))"
    by (metis prod.collapse)
  from forecast_saved [OF this]
  show "\<exists>saved. staged_snapshot WeatherForecast
                 (snd (merge_fetched_and_current_data fetched_data current_data w1)) = Some saved
               \<and> sorted (map key saved)"
    by (auto dest: fill_missing_values_sorted)
next
  assume "fst (run_update_merge date w2) = Inr ()"
  then have "run_update_merge date w2 = (Inr (), snd (run_update_merge date w2))"
    by (metis prod.collapse)
  from pollutant_saved [OF this]
  show "\<exists>saved. staged_snapshot AirQuality (snd (run_update_merge date w2)) = Some saved
               \<and> sorted (map key saved)"
    by (auto dest: fill_missing_values_sorted)
next
  assume "fst (merge_new_and_existing_data day w3) = Inr True"
  then have "merge_new_and_existing_data day w3
      = (Inr True, snd (merge_new_and_existing_data day w3))"
    by (metis prod.collapse)
  from weather_saved [OF this]
  show "\<exists>saved. staged_snapshot HistoricalWeather (snd (merge_new_and_existing_data day w3))
                 = Some saved
               \<and> sorted (map key saved)"
    by (auto dest: fill_missing_values_sorted simp: fix_error_values_keys)
qed

theorem merge_saves_sorted_witness:
  "fst (merge_fetched_and_current_data example_fetched example_forecast merge_world) = Inr () \<and>
   fst (run_update_merge (2024, 3, 8) merge_world) = Inr () \<and>
   fst (merge_new_and_existing_data (2024, 3, 8) merge_world) = Inr True \<and>
   (\<exists>saved. staged_snapshot WeatherForecast
       (snd (merge_fetched_and_current_data example_fetched example_forecast merge_world))
         = Some saved \<and> sorted (map key saved)) \<and>
   (\<exists>saved. staged_snapshot AirQuality (snd (run_update_merge (2024, 3, 8) merge_world))
         = Some saved \<and> sorted (map key saved)) \<and>
   (\<exists>saved. staged_snapshot HistoricalWeather
       (snd (merge_new_and_existing_data (2024, 3, 8) merge_world))
         = Some saved \<and> sorted (map key saved))"
  using merge_saves_sorted [of example_fetched example_forecast merge_world "(2024, 3, 8)"
      merge_world "(2024, 3, 8)" merge_world]
    merge_world_forecast merge_world_pollutants merge_world_weather
  by blast

text \<open>
  Claim C5.  Whenever a merge saves a snapshot, its (category, timestamp) pairs are
  pairwise distinct, whatever the two input frames hold.  This includes the
  historical-weather merge, which concatenates without dropping duplicates:
  \<^verbatim>\<open>fill_missing_values\<close> groups the rows by key.
\<close>

theorem merge_saves_distinct:
  "(fst (merge_fetched_and_current_data fetched_data current_data w1) = Inr () \<longrightarrow>
      (\<exists>saved. staged_snapshot WeatherForecast
                 (snd (merge_fetched_and_current_data fetched_data current_data w1)) = Some saved
               \<and> distinct (map key saved))) \<and>
   (fst (run_update_merge date w2) = Inr () \<longrightarrow>
      (\<exists>saved. staged_snapshot AirQuality (snd (run_update_merge date w2)) = Some saved
               \<and> distinct (map key saved))) \<and>
   (fst (merge_new_and_existing_data day w3) = Inr True \<longrightarrow>
      (\<exists>saved. staged_snapshot HistoricalWeather (snd (merge_new_and_existing_data day w3))
                 = Some saved
               \<and> distinct (map key saved)))"
proof (intro conjI impI)
  assume "fst (merge_fetched_and_current_data fetched_data current_data w1) = Inr ()"
  then have "merge_fetched_and_current_data fetched_data current_data w1
      = (Inr (), snd (merge_fetched_and_current_data fetched_data current_data w1))"
    by (metis prod.collapse)
  from forecast_saved [OF this]
  show "\<exists>saved. staged_snapshot WeatherForecast
                 (snd (merge_fetched_and_current_data fetched_data current_data w1)) = Some saved
               \<and> distinct (map key saved)"
    by (auto dest: fill_missing_values_distinct)
next
  assume "fst (run_update_merge date w2) = Inr ()"
  then have "run_update_merge date w2 = (Inr (), snd (run_update_merge date w2))"
    by (metis prod.collapse)
  from pollutant_saved [OF this]
  show "\<exists>saved. staged_snapshot AirQuality (snd (run_update_merge date w2)) = Some saved
               \<and> distinct (map key saved)"
    by (auto dest: fill_missing_values_distinct)
next
  assume "fst (merge_new_and_existing_data day w3) = Inr True"
  then have "merge_new_and_existing_data day w3
      = (Inr True, snd (merge_new_and_existing_data day w3))"
    by (metis prod.collapse)
  from weather_saved [OF this]
  show "\<exists>saved. staged_snapshot HistoricalWeather (snd (merge_new_and_existing_data day w3))
                 = Some saved
               \<and> distinct (map key saved)"
    by (auto dest: fill_missing_values_distinct simp: fix_error_values_keys)
qed

theorem merge_saves_distinct_witness:
  "fst (merge_fetched_and_current_data example_fetched example_forecast merge_world) = Inr () \<and>
   fst (run_update_merge (2024, 3, 8) merge_world) = Inr () \<and>
   fst (merge_new_and_existing_data (2024, 3, 8) merge_world) = Inr True \<and>
   (\<exists>saved. staged_snapshot WeatherForecast
       (snd (merge_fetched_and_current_data example_fetched example_forecast merge_world))
         = Some saved \<and> distinct (map key saved)) \<and>
   (\<exists>saved. staged_snapshot AirQuality (snd (run_update_merge (2024, 3, 8) merge_world))
         = Some saved \<and> distinct (map key saved)) \<and>
   (\<exists>saved. staged_snapshot HistoricalWeather
       (snd (merge_new_and_existing_data (2024, 3, 8) merge_world))
         = Some saved \<and> distinct (map key saved))"
  using merge_saves_distinct [of example_fetched example_forecast merge_world "(2024, 3, 8)"
      merge_world "(2024, 3, 8)" merge_world]
    merge_world_forecast merge_world_pollutants merge_world_weather
  by blast

section \<open>The historical-weather consistency check\<close>

lemma get_existing_data_df_temp_cached:
  assumes "get_existing_data_df ds True w = (Inr df, w1)"
  shows "get_existing_data_df ds True w1 = (Inr df, w1)"
    and "timeseries_temp w1 = timeseries_temp w"
    and "timeseries w1 = timeseries w"
    and "historical_weather_backups w1 = historical_weather_backups w"
  using assms
  by (auto simp: get_existing_data_df_def split: option.splits)

lemma not_follows_on:
  "first_time \<noteq> map_option add_hour last_time \<Longrightarrow> \<not> follows_on first_time last_time"
  by (auto simp: follows_on_def split: option.splits)

text \<open>
  Claim C8.  When the staged historical-weather snapshot can be read, the raw file of the
  day exists, and the earliest timestamp of the raw file is not the snapshot's last
  timestamp plus one hour, \<^verbatim>\<open>merge_new_and_existing_data\<close> returns \<^verbatim>\<open>False\<close> without
  raising, and neither the staging directory nor the live directory has changed.
\<close>

theorem merge_rejects_gap:
  assumes "fst (get_existing_data_df HistoricalWeather True w) = Inr existing_data_df"
    and "historical_weather_backups w date = Some new_data"
    and "min_ts (map Datetime new_data)
           \<noteq> map_option add_hour (max_ts (map Datetime existing_data_df))"
  shows "fst (merge_new_and_existing_data date w) = Inr False \<and>
         timeseries_temp (snd (merge_new_and_existing_data date w)) = timeseries_temp w \<and>
         timeseries (snd (merge_new_and_existing_data date w)) = timeseries w"
proof -
  obtain w1 where w1: "get_existing_data_df HistoricalWeather True w = (Inr existing_data_df, w1)"
    using assms(1) by (metis prod.collapse)
  note c = get_existing_data_df_temp_cached [OF w1]
  have "get_merged_new_and_existing_data date w = (Inr None, w1)"
    using w1 assms(2) c not_follows_on [OF assms(3)]
    by (simp add: get_merged_new_and_existing_data_def bind_def fetch_backedup_data_def
        get_existing_data_last_time_def return_def)
  then have "merge_new_and_existing_data date w = (Inr False, w1)"
    by (simp add: merge_new_and_existing_data_def try_except_def bind_def return_def)
  with c show ?thesis by simp
qed

lemma late_weather_world_staged:
  "fst (get_existing_data_df HistoricalWeather True late_weather_world) = Inr example_weather"
  by code_simp

lemma late_weather_world_backup:
  "historical_weather_backups late_weather_world (2024, 3, 8) = Some late_weather"
  by (simp add: late_weather_world_def)

lemma late_weather_gap:
  "min_ts (map Datetime late_weather) \<noteq> map_option add_hour (max_ts (map Datetime example_weather))"
  by code_simp

theorem merge_rejects_gap_witness:
  "fst (get_existing_data_df HistoricalWeather True late_weather_world) = Inr example_weather \<and>
   historical_weather_backups late_weather_world (2024, 3, 8) = Some late_weather \<and>
   min_ts (map Datetime late_weather) \<noteq> map_option add_hour (max_ts (map Datetime example_weather)) \<and>
   fst (merge_new_and_existing_data (2024, 3, 8) late_weather_world) = Inr False \<and>
   timeseries_temp (snd (merge_new_and_existing_data (2024, 3, 8) late_weather_world))
     = timeseries_temp late_weather_world \<and>
   timeseries (snd (merge_new_and_existing_data (2024, 3, 8) late_weather_world))
     = timeseries late_weather_world"
  using merge_rejects_gap [OF late_weather_world_staged late_weather_world_backup late_weather_gap]
    late_weather_world_staged late_weather_world_backup late_weather_gap
  by simp

section \<open>Leading gaps\<close>

lemma linear_from_None_nth:
  "\<forall>i' \<le> i. xs ! i' = None \<Longrightarrow> i < length xs \<Longrightarrow> linear_from None xs ! i = None"
proof (induction xs arbitrary: i)
  case Nil
  then show ?case by simp
next
  case (Cons x xs)
  from Cons.prems(1) have x: "x = None" by auto
  show ?case
  proof (cases i)
    case 0
    with x show ?thesis by simp
  next
    case (Suc k)
    with Cons.prems have "\<forall>i' \<le> k. xs ! i' = None" and "k < length xs" by auto
    with Cons.IH Suc x show ?thesis by simp
  qed
qed

lemma pad_from_None_nth:
  "\<forall>i' \<le> i. xs ! i' = None \<Longrightarrow> i < length xs \<Longrightarrow> pad_from None xs ! i = None"
proof (induction xs arbitrary: i)
  case Nil
  then show ?case by simp
next
  case (Cons x xs)
  from Cons.prems(1) have x: "x = None" by auto
  show ?case
  proof (cases i)
    case 0
    with x show ?thesis by simp
  next
    case (Suc k)
    with Cons.prems have "\<forall>i' \<le> k. xs ! i' = None" and "k < length xs" by auto
    with Cons.IH Suc x show ?thesis by simp
  qed
qed

lemma length_interpolate: "length (interpolate method w cdf) = length cdf"
  by (simp add: interpolate_def Let_def)

lemma column_interpolate:
  "i < length cdf \<Longrightarrow>
   column j (snd (interpolate method w cdf ! i)) =
     (if j < w then method (map (\<lambda>tv. column j (snd tv)) cdf) ! i else None)"
proof -
  assume "i < length cdf"
  then have "snd (interpolate method w cdf ! i) =
      map (\<lambda>j. method (map (\<lambda>tv. column j (snd tv)) cdf) ! i) [0..<w]"
    by (simp add: interpolate_def Let_def)
  then show ?thesis
    by (simp add: column_def [of j "map f xs" for f xs])
qed

lemma leading_gap_interpolate:
  assumes "leading_gap j i cdf"
    and "\<And>xs k. \<forall>i' \<le> k. xs ! i' = None \<Longrightarrow> k < length xs \<Longrightarrow> method xs ! k = None"
  shows "leading_gap j i (interpolate method w cdf)"
  unfolding leading_gap_def
proof (intro conjI allI impI)
  from assms(1) show "i < length (interpolate method w cdf)"
    by (simp add: leading_gap_def length_interpolate)
next
  fix i' assume "i' \<le> i"
  with assms(1) have i': "i' < length cdf" by (simp add: leading_gap_def)
  have "method (map (\<lambda>tv. column j (snd tv)) cdf) ! i' = None"
  proof (rule assms(2))
    show "\<forall>k \<le> i'. map (\<lambda>tv. column j (snd tv)) cdf ! k = None"
      using assms(1) \<open>i' \<le> i\<close> by (simp add: leading_gap_def)
    show "i' < length (map (\<lambda>tv. column j (snd tv)) cdf)" using i' by simp
  qed
  with i' show "column j (snd (interpolate method w cdf ! i')) = None"
    by (simp add: column_interpolate)
qed

lemma leading_gap_fill_category:
  "leading_gap j i cdf \<Longrightarrow> leading_gap j i (fill_category w cdf)"
  by (simp add: fill_category_def Let_def interpolate_linear_def interpolate_pad_def
      leading_gap_interpolate linear_from_None_nth pad_from_None_nth)

lemma mean_None: "\<forall>x \<in> set xs. x = None \<Longrightarrow> mean xs = None"
  by (induction xs) (auto simp: mean_def List.map_filter_simps)

lemma cell_None:
  "\<forall>r \<in> set df. category r = c \<and> Datetime r = t \<longrightarrow> column j (vals r) = None \<Longrightarrow>
   cell df c t j = None"
  by (auto simp: cell_def intro!: mean_None)

lemma sorted_nth_le: "sorted xs \<Longrightarrow> i' \<le> i \<Longrightarrow> i < length xs \<Longrightarrow> xs ! i' \<le> xs ! i"
  by (simp add: sorted_iff_nth_mono)

text \<open>
  Claim C10.  When a category has no known value of a column at any timestamp up to \<open>t\<close>
  (a gap at the leading edge of its series), \<^verbatim>\<open>fill_missing_values\<close> returns a frame
  whose row for that category at \<open>t\<close> is still missing in that column: neither the linear
  interpolation nor the padding fills before the first known value.
\<close>

theorem leading_gap_stays_missing:
  assumes c: "c \<in> set (map category df)"
    and t: "t \<in> set (map Datetime df)"
    and gap: "\<forall>r \<in> set df. category r = c \<and> Datetime r \<le> t \<longrightarrow> column j (vals r) = None"
  shows "\<exists>out. fill_missing_values df = Inr out \<and>
           (\<exists>r \<in> set out. category r = c \<and> Datetime r = t \<and> column j (vals r) = None)"
proof -
  from c have "df \<noteq> []" by auto
  then obtain out where out: "fill_missing_values df = Inr out"
    by (simp add: fill_missing_values_def)
  let ?times = "levels (map Datetime df)"
  let ?series = "map (\<lambda>t. (t, map (cell df c t) [0..<width df])) ?times"
  from t have "t \<in> set ?times" by (simp add: levels_def)
  then obtain i where i: "i < length ?times" "?times ! i = t"
    by (auto simp: in_set_conv_nth)
  have "leading_gap j i ?series"
    unfolding leading_gap_def
  proof (intro conjI allI impI)
    show "i < length ?series" using i by simp
  next
    fix i' assume le: "i' \<le> i"
    with i have "?times ! i' \<le> t"
      using sorted_nth_le [OF sorted_levels, of i' i "map Datetime df"] by simp
    with gap have "cell df c (?times ! i') j = None"
      by (intro cell_None) auto
    with le i show "column j (snd (?series ! i')) = None"
      by (simp add: column_def)
  qed
  then have lg: "leading_gap j i (fill_category (width df) ?series)"
    by (rule leading_gap_fill_category)
  let ?filled = "fill_category (width df) ?series"
  from lg have len: "i < length ?filled" and none: "column j (snd (?filled ! i)) = None"
    by (auto simp: leading_gap_def)
  have times: "map fst ?filled = ?times"
    by (simp add: map_fst_fill_category o_def)
  from len have "fst (?filled ! i) = map fst ?filled ! i"
    by (simp only: nth_map)
  with i have fst_i: "fst (?filled ! i) = t"
    by (simp only: times)
  let ?r = "\<lparr>category = c, Datetime = fst (?filled ! i), vals = snd (?filled ! i)\<rparr>"
  from c have "c \<in> set (levels (map category df))" by (simp add: levels_def)
  then have "(c, ?series) \<in> set (pivot_table df)"
    by (auto simp: pivot_table_def)
  moreover from len have "?r \<in> set (reset_index c ?filled)"
    by (auto simp: reset_index_def)
  ultimately have "?r \<in> set out"
    using out by (force simp: fill_missing_values_def split: if_splits)
  with fst_i none have "\<exists>r \<in> set out. category r = c \<and> Datetime r = t \<and> column j (vals r) = None"
    by (intro bexI [of _ ?r]) auto
  with out show ?thesis by blast
qed

lemma gap_frame_gap:
  "\<forall>r \<in> set gap_frame. category r = ''NO2'' \<and> Datetime r \<le> ((2024, 3, 8), 1)
      \<longrightarrow> column 0 (vals r) = None"
  by (simp add: gap_frame_def column_def)

theorem leading_gap_stays_missing_witness:
  "''NO2'' \<in> set (map category gap_frame) \<and>
   ((2024, 3, 8), 1) \<in> set (map Datetime gap_frame) \<and>
   (\<exists>out. fill_missing_values gap_frame = Inr out \<and>
      (\<exists>r \<in> set out. category r = ''NO2'' \<and> Datetime r = ((2024, 3, 8), 1)
         \<and> column 0 (vals r) = None))"
proof -
  have c: "''NO2'' \<in> set (map category gap_frame)"
    by (simp add: gap_frame_def)
  have t: "((2024, 3, 8), 1) \<in> set (map Datetime gap_frame)"
    by (simp add: gap_frame_def)
  from leading_gap_stays_missing [OF c t gap_frame_gap] c t show ?thesis
    by blast
qed

section \<open>What a run leaves when it fails\<close>

lemma staged_run_refl: "staged_run w w"
  by (simp add: staged_run_def)

lemma staged_run_trans: "staged_run w w1 \<Longrightarrow> staged_run w1 w2 \<Longrightarrow> staged_run w w2"
  by (simp add: staged_run_def)

lemma keepsD: "keeps m \<Longrightarrow> m w = (r, w') \<Longrightarrow> staged_run w w'"
  by (metis keeps_def snd_conv)

lemma keeps_return: "keeps (return x)"
  and keeps_raise: "keeps (raise e)"
  and keeps_lift: "keeps (lift r)"
  by (simp_all add: keeps_def return_def raise_def lift_def staged_run_refl)

lemma keeps_bind: "keeps m \<Longrightarrow> (\<And>x. keeps (f x)) \<Longrightarrow> keeps (bind m f)"
  unfolding keeps_def bind_def
  by (auto split: prod.splits sum.splits intro: staged_run_trans keepsD [unfolded keeps_def]
      dest: spec)

lemma keeps_try_except: "keeps m \<Longrightarrow> (\<And>e. keeps (handler e)) \<Longrightarrow> keeps (try_except m handler)"
  unfolding keeps_def try_except_def
  by (auto split: prod.splits sum.splits intro: staged_run_trans keepsD [unfolded keeps_def]
      dest: spec)

lemma keeps_reader: "(\<And>w0. keeps (f w0)) \<Longrightarrow> keeps (\<lambda>w. f w w)"
  by (simp add: keeps_def)

lemma keeps_if: "keeps m \<Longrightarrow> keeps n \<Longrightarrow> keeps (if b then m else n)"
  by simp

lemma keeps_case_option:
  "keeps m \<Longrightarrow> (\<And>x. keeps (f x)) \<Longrightarrow> keeps (case v of None \<Rightarrow> m | Some x \<Rightarrow> f x)"
  by (cases v) simp_all

lemma keeps_logger_error: "keeps (logger_error message)"
  by (simp add: keeps_def logger_error_def staged_run_def)

lemma keeps_handle_error: "keeps (handle_error e message)"
  unfolding handle_error_def
  by (intro keeps_bind keeps_logger_error) (simp add: keeps_def staged_run_refl)

lemma keeps_init_manager: "keeps (init_manager ds)"
  by (simp add: keeps_def init_manager_def staged_run_def)

lemma keeps_get_existing_data_df: "keeps (get_existing_data_df ds temp)"
  by (auto simp: keeps_def get_existing_data_df_def staged_run_def split: option.splits)

lemma keeps_save_existing_data_df: "keeps (save_existing_data_df ds df True)"
  by (auto simp: keeps_def save_existing_data_df_def staged_run_def Let_def split: option.splits)

lemma keeps_compare_date: "keeps (compare_date p d)"
  by (cases d) (simp_all add: compare_date_def keeps_return keeps_raise)

lemmas keeps_intros = keeps_bind keeps_try_except keeps_return keeps_raise keeps_lift
  keeps_logger_error keeps_handle_error keeps_init_manager keeps_get_existing_data_df
  keeps_save_existing_data_df keeps_compare_date keeps_if keeps_case_option

lemma keeps_get_existing_data_last_time: "keeps (get_existing_data_last_time ds temp)"
  unfolding get_existing_data_last_time_def by (intro keeps_intros)

lemma keeps_get_next_day_to_fetch: "keeps (get_next_day_to_fetch ds temp)"
  unfolding get_next_day_to_fetch_def by (intro keeps_intros keeps_get_existing_data_last_time)

lemma keeps_previous_days_data_exists: "keeps (previous_days_data_exists ds date temp)"
  unfolding previous_days_data_exists_def
  by (intro keeps_intros keeps_get_existing_data_last_time)

text \<open>The pollutant manager.\<close>

lemma keeps_get_api_response: "keeps (get_api_response rq)"
  by (auto simp: keeps_def get_api_response_def staged_run_def Let_def split: list.splits)

lemma keeps_fetch_download_id: "keeps (fetch_download_id date pollutant)"
  unfolding fetch_download_id_def by (intro keeps_intros keeps_get_api_response)

lemma keeps_download_file_stream: "keeps (download_file_stream download_id)"
  unfolding download_file_stream_def by (intro keeps_intros keeps_get_api_response)

lemma keeps_save_backup: "keeps (save_backup content date pollutant)"
  by (simp add: keeps_def save_backup_def staged_run_def)

lemma keeps_fetch_pollutant_download_ids_loop:
  "keeps (fetch_pollutant_download_ids_loop date pollutants download_ids)"
proof (induction pollutants arbitrary: download_ids)
  case Nil
  show ?case by (simp add: keeps_return)
next
  case (Cons pollutant pollutants)
  show ?case
    unfolding fetch_pollutant_download_ids_loop.simps
    by (intro keeps_intros keeps_fetch_download_id Cons.IH)
qed

lemma keeps_fetch_required_pollutant_ids: "keeps (fetch_required_pollutant_ids date)"
  by (simp add: keeps_def fetch_required_pollutant_ids_def fetch_pollutant_download_ids_def
      keeps_fetch_pollutant_download_ids_loop [unfolded keeps_def])

lemma keeps_download_file_streams: "keeps (download_file_streams date download_ids)"
proof (induction download_ids)
  case Nil
  show ?case by (simp add: keeps_return)
next
  case (Cons a download_ids)
  obtain pollutant download_id where a: "a = (pollutant, download_id)" by (cases a)
  show ?case
    unfolding a download_file_streams.simps
    by (intro keeps_intros keeps_download_file_stream keeps_save_backup Cons.IH)
qed

lemma keeps_single_fetch_data: "keeps (single_fetch_data date)"
  unfolding single_fetch_data_def
  by (intro keeps_intros keeps_fetch_required_pollutant_ids keeps_download_file_streams)

lemma keeps_get_filled_missing_day_data: "keeps (get_filled_missing_day_data date pollutant)"
  unfolding get_filled_missing_day_data_def get_previous_day_data_def
  by (intro keeps_intros)

lemma keeps_get_merged_pollutants_data_loop:
  "keeps (get_merged_pollutants_data_loop date pollutants)"
proof (induction pollutants)
  case Nil
  show ?case by (simp add: keeps_return)
next
  case (Cons pollutant pollutants)
  have "staged_run w (snd (get_merged_pollutants_data_loop date (pollutant # pollutants) w))"
    for w
  proof (cases "pollutants_backups w (pollutant, date)")
    case None
    then show ?thesis by (simp add: staged_run_refl)
  next
    case (Some content)
    let ?df = "filter_pollutants_data_by_location (read_csv w content) pollutant"
    have "keeps (bind (if length ?df = 0 then get_filled_missing_day_data date pollutant
                       else return ?df) (\<lambda>pollutant_data_df.
                   bind (get_merged_pollutants_data_loop date pollutants) (\<lambda>rest.
                     return (pollutant_data_df @ rest))))"
      by (intro keeps_intros keeps_get_filled_missing_day_data Cons.IH)
    with Some show ?thesis by (simp add: keeps_def Let_def)
  qed
  then show ?case by (simp add: keeps_def)
qed

lemma keeps_run_update_merge: "keeps (run_update_merge date)"
  unfolding run_update_merge_def get_cleaned_fetched_pollutants_data_def
    get_merged_pollutants_data_def add_processed_fetched_data_to_existing_def
  by (intro keeps_intros keeps_get_merged_pollutants_data_loop)

lemma keeps_run_update: "keeps (run_update date)"
  unfolding run_update_def
  by (intro keeps_intros keeps_single_fetch_data keeps_run_update_merge)

lemma keeps_aq_update_next_day: "keeps aq_update_next_day"
proof -
  have "staged_run w (snd (aq_update_next_day w))" for w
  proof (cases "get_next_day_to_fetch AirQuality True w")
    case (Pair r w')
    then have w': "staged_run w w'"
      by (rule keepsD [OF keeps_get_next_day_to_fetch])
    show ?thesis
    proof (cases r)
      case (Inl e)
      with Pair w' show ?thesis by (simp add: aq_update_next_day_def)
    next
      case (Inr next_day_to_fetch)
      have "keeps (try_except
            (bind (compare_date (\<lambda>d. sub_day (today w') < d) next_day_to_fetch) (\<lambda>not_yet.
               if not_yet then return False
               else bind (run_update (the next_day_to_fetch)) (\<lambda>_. return True)))
            (\<lambda>e. bind (handle_error e (Error_updating_air_quality next_day_to_fetch))
                   (\<lambda>_. return False)))"
        by (intro keeps_intros keeps_run_update)
      then show ?thesis
        using Pair Inr w' by (auto simp: aq_update_next_day_def keeps_def intro: staged_run_trans)
    qed
  qed
  then show ?thesis by (simp add: keeps_def)
qed


text \<open>The historical-weather manager.\<close>

lemma keeps_get_nearest_station_ids: "keeps get_nearest_station_ids"
  by (auto simp: keeps_def get_nearest_station_ids_def staged_run_def Let_def
      split: option.splits)

lemma keeps_fetch_hourly_data_loop: "keeps (fetch_hourly_data_loop date ids)"
proof (induction ids)
  case Nil
  show ?case by (simp add: keeps_return)
next
  case (Cons a ids)
  obtain location station_id where a: "a = (location, station_id)" by (cases a)
  have "staged_run w (snd (fetch_hourly_data_loop date ((location, station_id) # ids) w))" for w
  proof -
    have "keeps (bind (lift (meteostat_hourly w station_id date)) (\<lambda>hourly_data_df.
        bind (fetch_hourly_data_loop date ids) (\<lambda>rest.
          return (length hourly_data_df \<noteq> 0 \<and> fst rest,
                  reset_index location (sort_key fst hourly_data_df) @ snd rest))))"
      by (intro keeps_intros Cons.IH)
    then show ?thesis by (simp add: keeps_def)
  qed
  then show ?case by (simp add: keeps_def a)
qed

lemma keeps_fetch_hourly_data_for_date: "keeps (fetch_hourly_data_for_date date)"
  unfolding fetch_hourly_data_for_date_def
  by (intro keeps_intros keeps_get_nearest_station_ids keeps_fetch_hourly_data_loop)

lemma keeps_hw_save_backup: "keeps (hw_save_backup date hourly_data)"
  by (simp add: keeps_def hw_save_backup_def staged_run_def)

lemma keeps_fetch_and_save_data_for_date: "keeps (fetch_and_save_data_for_date date)"
proof -
  have "keeps (\<lambda>w. if backup_file_exists date w then (Inr (Some True), w)
            else bind (fetch_hourly_data_for_date date) (\<lambda>hourly_data.
                   case hourly_data of
                     Some df \<Rightarrow> bind (hw_save_backup date df) (\<lambda>_. return (Some True))
                   | None \<Rightarrow> return None) w)"
  proof -
    have k: "keeps (bind (fetch_hourly_data_for_date date) (\<lambda>hourly_data.
                   case hourly_data of
                     Some df \<Rightarrow> bind (hw_save_backup date df) (\<lambda>_. return (Some True))
                   | None \<Rightarrow> return None))"
      by (intro keeps_intros keeps_fetch_hourly_data_for_date keeps_hw_save_backup)
    show ?thesis
      using k by (simp add: keeps_def staged_run_refl)
  qed
  then show ?thesis
    unfolding fetch_and_save_data_for_date_def
    by (intro keeps_intros keeps_previous_days_data_exists)
qed

lemma keeps_get_merged_new_and_existing_data: "keeps (get_merged_new_and_existing_data date)"
proof -
  have "keeps (\<lambda>w. case fetch_backedup_data date w of
         None \<Rightarrow> (Inr None, w)
       | Some new_data \<Rightarrow>
          bind (get_existing_data_last_time HistoricalWeather True) (\<lambda>existing_data_last_time.
            if \<not> follows_on (min_ts (map Datetime new_data)) existing_data_last_time
            then return None
            else return (Some (sort_values ascending_ascending (existing_data_df @ new_data)))) w)"
    for existing_data_df
  proof -
    have k: "keeps (bind (get_existing_data_last_time HistoricalWeather True)
          (\<lambda>existing_data_last_time.
            if \<not> follows_on (min_ts (map Datetime new_data)) existing_data_last_time
            then return None
            else return (Some (sort_values ascending_ascending (existing_data_df @ new_data)))))"
      for new_data
      by (intro keeps_intros keeps_get_existing_data_last_time)
    show ?thesis
      using k by (auto simp: keeps_def staged_run_refl split: option.splits)
  qed
  then show ?thesis
    unfolding get_merged_new_and_existing_data_def
    by (intro keeps_intros)
qed

lemma keeps_merge_new_and_existing_data: "keeps (merge_new_and_existing_data date)"
  unfolding merge_new_and_existing_data_def
  by (intro keeps_intros keeps_get_merged_new_and_existing_data)

lemma keeps_hw_update_next_day: "keeps hw_update_next_day"
proof -
  have "keeps (\<lambda>w. bind (compare_date (\<lambda>d. sub_day (today w) < d) next_day_to_fetch) (\<lambda>not_yet.
         if not_yet then return False
         else bind (fetch_and_save_data_for_date (the next_day_to_fetch)) (\<lambda>fetch_success.
                if fetch_success \<noteq> Some True then return False
                else merge_new_and_existing_data (the next_day_to_fetch))) w)"
    for next_day_to_fetch
  proof -
    have k: "keeps (bind (compare_date (\<lambda>d. sub_day t < d) next_day_to_fetch) (\<lambda>not_yet.
         if not_yet then return False
         else bind (fetch_and_save_data_for_date (the next_day_to_fetch)) (\<lambda>fetch_success.
                if fetch_success \<noteq> Some True then return False
                else merge_new_and_existing_data (the next_day_to_fetch))))" for t
      by (intro keeps_intros keeps_fetch_and_save_data_for_date
          keeps_merge_new_and_existing_data)
    show ?thesis using k by (simp add: keeps_def)
  qed
  then show ?thesis
    unfolding hw_update_next_day_def
    by (intro keeps_intros keeps_get_next_day_to_fetch)
qed

text \<open>The loop.\<close>

lemma keeps_attempts:
  assumes "keeps update_next_day"
  shows "staged_run w (snd (attempts update_next_day attempt no_fails w))"
  using assms
proof (induction update_next_day attempt no_fails w rule: attempts.induct)
  case (1 update_next_day attempt no_fails w)
  show ?case
  proof (cases "attempt \<le> max_attempts \<and> no_fails")
    case False
    then show ?thesis by (simp add: attempts_stop staged_run_refl)
  next
    case True
    show ?thesis
    proof (cases "update_next_day w")
      case (Pair res w')
      then have w': "staged_run w w'" by (rule keepsD [OF "1.prems"])
      show ?thesis
      proof (cases res)
        case (Inl e)
        with Pair have "update_next_day w = (Inl e, w')" by simp
        then have "attempts update_next_day attempt no_fails w = ([Inl e], w')"
          using True by (rule_tac attempts_raise) simp_all
        with w' show ?thesis by simp
      next
        case (Inr b)
        from "1.IH" [OF True Pair [symmetric] Inr "1.prems"]
        have "staged_run w' (snd (attempts update_next_day (attempt + 1) b w'))" .
        moreover from Pair Inr have "update_next_day w = (Inr b, w')" by simp
        ultimately show ?thesis
          using attempts_next [of attempt no_fails update_next_day w b w'] True w'
          by (auto intro: staged_run_trans)
      qed
    qed
  qed
qed

lemma keeps_update_to_yesterday:
  assumes "keeps update_next_day"
  shows "keeps (update_to_yesterday update_next_day)"
proof -
  have "snd (update_to_yesterday update_next_day w) = snd (attempts update_next_day 1 True w)"
    for w
    by (simp add: update_to_yesterday_def split: prod.splits list.splits)
  with keeps_attempts [OF assms] show ?thesis by (simp add: keeps_def)
qed

text \<open>The forecast manager.\<close>

lemma keeps_fetch_data_loop: "keeps (fetch_data_loop start_date end_date locations)"
proof (induction locations)
  case Nil
  show ?case by (simp add: keeps_return)
next
  case (Cons location locations)
  have "staged_run w (snd (fetch_data_loop start_date end_date (location # locations) w))" for w
  proof -
    have "keeps (bind (lift (open_meteo w location start_date end_date))
        (\<lambda>forecast_hourly_data_df.
          bind (fetch_data_loop start_date end_date locations) (\<lambda>rest.
            return (reset_index location forecast_hourly_data_df @ rest))))"
      by (intro keeps_intros Cons.IH)
    then show ?thesis by (simp add: keeps_def)
  qed
  then show ?case by (simp add: keeps_def)
qed

lemma keeps_backup_fetched_data: "keeps (backup_fetched_data fetched_data start_date)"
  by (simp add: keeps_def backup_fetched_data_def staged_run_def)

lemma keeps_merge_fetched_and_current_data:
  "keeps (merge_fetched_and_current_data fetched_data current_data)"
  unfolding merge_fetched_and_current_data_def by (intro keeps_intros)

lemma keeps_update_current_data: "keeps update_current_data"
proof -
  have "keeps (\<lambda>w.
         (let end_date = (add_day ^^ 6) (today w)
          in bind (compare_date (\<lambda>d. end_date \<le> d) last_date_current_data) (\<lambda>covered.
               if covered then return False
               else
                 (let start_date = (sub_day ^^ 5) (the last_date_current_data)
                  in bind (fetch_data start_date end_date) (\<lambda>fetched_data.
                       bind (backup_fetched_data fetched_data start_date) (\<lambda>_.
                         bind (merge_fetched_and_current_data fetched_data current_data) (\<lambda>_.
                           return True)))))) w)"
    for last_date_current_data current_data
  proof -
    have k: "keeps (bind (compare_date (\<lambda>d. end_date \<le> d) last_date_current_data) (\<lambda>covered.
               if covered then return False
               else bind (fetch_data start_date end_date) (\<lambda>fetched_data.
                       bind (backup_fetched_data fetched_data start_date) (\<lambda>_.
                         bind (merge_fetched_and_current_data fetched_data current_data) (\<lambda>_.
                           return True)))))" for end_date start_date
      unfolding fetch_data_def
      by (intro keeps_intros keeps_fetch_data_loop keeps_backup_fetched_data
          keeps_merge_fetched_and_current_data)
    show ?thesis
      unfolding keeps_def Let_def
    proof
      fix w
      from k [of "(add_day ^^ 6) (today w)" "(sub_day ^^ 5) (the last_date_current_data)"]
      show "staged_run w (snd (bind
          (compare_date ((\<le>) ((add_day ^^ 6) (today w))) last_date_current_data)
          (\<lambda>covered. if covered then return False
             else bind (fetch_data ((sub_day ^^ 5) (the last_date_current_data))
                          ((add_day ^^ 6) (today w)))
                   (\<lambda>fetched_data.
                      bind (backup_fetched_data fetched_data
                              ((sub_day ^^ 5) (the last_date_current_data)))
                        (\<lambda>_. bind (merge_fetched_and_current_data fetched_data current_data)
                                (\<lambda>_. return True)))) w))"
        unfolding keeps_def by (rule spec)
    qed
  qed
  then show ?thesis
    unfolding update_current_data_def get_last_date_current_data_def
    by (intro keeps_intros)
qed

text \<open>The run: staging, the three updates, the handler.\<close>

lemma keeps_update_datasets: "keeps update_datasets"
  unfolding update_datasets_def hw_update_to_yesterday_def aq_update_to_yesterday_def
  by (intro keeps_bind keeps_init_manager keeps_update_current_data
      keeps_update_to_yesterday keeps_hw_update_next_day keeps_aq_update_next_day)

lemma next_fault_world:
  "next_fault w = (r, w') \<Longrightarrow>
   timeseries w' = timeseries w \<and> DEBUG w' = DEBUG w \<and> timeseries_temp w' = timeseries_temp w"
  by (auto simp: next_fault_def split: list.splits)

lemma clear_temp_data_live:
  "timeseries (snd (clear_temp_data w)) = timeseries w \<and>
   DEBUG (snd (clear_temp_data w)) = DEBUG w"
  by (auto simp: clear_temp_data_def rmtree_temp_def bind_def next_fault_def
      split: option.splits list.splits fault.splits)

lemma clear_temp_data_cleared:
  "fst (clear_temp_data w) = Inr () \<Longrightarrow> timeseries_temp (snd (clear_temp_data w)) = None"
  by (auto simp: clear_temp_data_def rmtree_temp_def bind_def next_fault_def
      split: option.splits list.splits fault.splits)

lemma copytree_temp_live:
  "timeseries (snd (copytree_temp w)) = timeseries w \<and>
   DEBUG (snd (copytree_temp w)) = DEBUG w"
  by (auto simp: copytree_temp_def bind_def next_fault_def
      split: option.splits list.splits fault.splits)

lemma copytree_temp_staged:
  "fst (copytree_temp w) = Inr () \<Longrightarrow>
   timeseries_temp (snd (copytree_temp w)) = Some (timeseries w)"
  by (auto simp: copytree_temp_def bind_def next_fault_def
      split: option.splits list.splits fault.splits)

lemma create_temp_data_live:
  "timeseries (snd (create_temp_data w)) = timeseries w \<and>
   DEBUG (snd (create_temp_data w)) = DEBUG w"
proof (cases "clear_temp_data w")
  case (Pair r w1)
  with clear_temp_data_live [of w] copytree_temp_live [of w1] show ?thesis
    by (cases r) (simp_all add: create_temp_data_def bind_def)
qed

lemma create_temp_data_staged:
  assumes "fst (create_temp_data w) = Inr ()"
  shows "timeseries_temp (snd (create_temp_data w)) = Some (timeseries w)"
proof (cases "clear_temp_data w")
  case (Pair r w1)
  show ?thesis
  proof (cases r)
    case (Inl e)
    with Pair assms show ?thesis by (simp add: create_temp_data_def bind_def)
  next
    case (Inr u)
    with Pair have c: "create_temp_data w = copytree_temp w1"
      by (simp add: create_temp_data_def bind_def)
    from Pair clear_temp_data_live [of w] have "timeseries w1 = timeseries w" by simp
    with c assms copytree_temp_staged [of w1] show ?thesis by simp
  qed
qed

lemma bind_raises:
  "m w = (Inl e, w') \<Longrightarrow> bind m f w = (Inl e, w')"
  by (simp add: bind_def)

lemma bind_assoc: "bind (bind m f) g = bind m (\<lambda>x. bind (f x) g)"
  by (rule ext) (auto simp: bind_def split: prod.splits sum.splits)

lemma update_all_try_staged:
  "update_all_try =
     bind (bind create_temp_data (\<lambda>_. update_datasets))
       (\<lambda>_. bind copy_temp_data_to_live (\<lambda>_. clear_temp_data))"
  by (simp add: update_all_try_def bind_assoc)

lemma staged_failure:
  assumes "fst (bind create_temp_data (\<lambda>_. update_datasets) w) = Inl e"
  shows "update_all_try w = (Inl e, snd (bind create_temp_data (\<lambda>_. update_datasets) w))"
    and "timeseries (snd (update_all_try w)) = timeseries w"
    and "DEBUG (snd (update_all_try w)) = DEBUG w"
proof -
  let ?staged = "bind create_temp_data (\<lambda>_. update_datasets)"
  from assms have "?staged w = (Inl e, snd (?staged w))"
    by (metis prod.collapse)
  then show u: "update_all_try w = (Inl e, snd (?staged w))"
    unfolding update_all_try_staged by (rule bind_raises)
  obtain r w0 where c: "create_temp_data w = (r, w0)" by (cases "create_temp_data w")
  with create_temp_data_live [of w] have w0: "timeseries w0 = timeseries w" "DEBUG w0 = DEBUG w"
    by simp_all
  have "timeseries (snd (?staged w)) = timeseries w \<and> DEBUG (snd (?staged w)) = DEBUG w"
  proof (cases r)
    case (Inl e')
    with c w0 show ?thesis by (simp add: bind_def)
  next
    case (Inr x)
    with c have "?staged w = update_datasets w0" by (simp add: bind_def)
    moreover have "staged_run w0 (snd (update_datasets w0))"
      using keeps_update_datasets by (simp add: keeps_def)
    ultimately show ?thesis using w0 by (simp add: staged_run_def)
  qed
  with u show "timeseries (snd (update_all_try w)) = timeseries w"
    and "DEBUG (snd (update_all_try w)) = DEBUG w"
    by simp_all
qed

lemma update_failure:
  assumes "fst (create_temp_data w) = Inr ()"
    and "fst (update_datasets (snd (create_temp_data w))) = Inl e"
  shows "fst (bind create_temp_data (\<lambda>_. update_datasets) w) = Inl e"
    and "timeseries_temp (snd (bind create_temp_data (\<lambda>_. update_datasets) w)) \<noteq> None"
proof -
  obtain w0 where c: "create_temp_data w = (Inr (), w0)"
    using assms(1) by (metis prod.collapse)
  then have b: "bind create_temp_data (\<lambda>_. update_datasets) w = update_datasets w0"
    by (simp add: bind_def)
  from c assms(2) have e: "fst (update_datasets w0) = Inl e" by simp
  with b show "fst (bind create_temp_data (\<lambda>_. update_datasets) w) = Inl e"
    by simp
  have "staged_run w0 (snd (update_datasets w0))"
    using keeps_update_datasets by (simp add: keeps_def)
  moreover from create_temp_data_staged [OF assms(1)] c have "timeseries_temp w0 \<noteq> None"
    by simp
  ultimately
  show "timeseries_temp (snd (bind create_temp_data (\<lambda>_. update_datasets) w)) \<noteq> None"
    using b by (simp add: staged_run_def)
qed

lemma update_all_handled:
  assumes "update_all_try w = (Inl e, w')" and "\<not> DEBUG w'"
  shows "update_all w = (Inr (), w'\<lparr>error_log := error_log w' @ [Error_on_data_update e]\<rparr>)"
  using assms by (simp add: update_all_def try_except_def bind_def logger_error_def)

lemma offline_world_staged: "fst (create_temp_data offline_world) = Inr ()"
  by code_simp

lemma offline_world_update_fails:
  "fst (update_datasets (snd (create_temp_data offline_world))) = Inl ConnectionError"
  by code_simp

lemma offline_world_staged_fails:
  "fst (bind create_temp_data (\<lambda>_. update_datasets) offline_world) = Inl ConnectionError"
  by (rule update_failure(1) [OF offline_world_staged offline_world_update_fails])

lemma offline_world_fails: "fst (update_all_try offline_world) = Inl ConnectionError"
  using staged_failure(1) [OF offline_world_staged_fails] by simp

lemma offline_world_not_DEBUG: "\<not> DEBUG offline_world"
  by (simp add: offline_world_def commit_world_def empty_world_def)

text \<open>
  The file operations of the run can fail too.  In \<open>copy_fault_world\<close> the copy of the
  staged files raises once it has overwritten the live forecast snapshot: the exception
  reaches the handler of \<^verbatim>\<open>update_all\<close> with that live file changed, and with the
  staging directory left behind.
\<close>

lemma copy_failure_reaches_handler:
  "fst (update_all_try copy_fault_world) = Inl OSError \<and>
   timeseries (snd (update_all copy_fault_world)) (EXISTING_DATA_FILENAME WeatherForecast)
     \<noteq> timeseries copy_fault_world (EXISTING_DATA_FILENAME WeatherForecast) \<and>
   timeseries_temp (snd (update_all copy_fault_world)) \<noteq> None"
proof -
  have "fst (update_all_try copy_fault_world) = Inl OSError"
    by code_simp
  moreover have
    "timeseries (snd (update_all copy_fault_world)) (EXISTING_DATA_FILENAME WeatherForecast)
       \<noteq> timeseries copy_fault_world (EXISTING_DATA_FILENAME WeatherForecast)"
    by code_simp
  moreover have "timeseries_temp (snd (update_all copy_fault_world)) \<noteq> None"
    by code_simp
  ultimately show ?thesis by blast
qed

text \<open>
  Claim C2 fails on the code.  In \<open>commit_world\<close> the forecast dataset merges into staging,
  then the pollutant merge raises \<^verbatim>\<open>FileNotFoundError\<close>;
  \<^verbatim>\<open>AirQualityDataManager.update_next_day\<close> catches and logs it, \<^verbatim>\<open>update_all\<close> goes on
  to copy the staged files over the live ones, and the live forecast snapshot has
  changed.
\<close>

theorem merge_exception_still_commits:
  "\<not> DEBUG commit_world \<and>
   fst (update_all commit_world) = Inr () \<and>
   error_log (snd (update_all commit_world)) =
     [Unsuccessful_request (2024, 3, 8) ''NO2'' 500,
      Unsuccessful_request (2024, 3, 8) ''NO2'' 500,
      Error_updating_air_quality (Some (2024, 3, 8)) FileNotFoundError] \<and>
   timeseries commit_world (EXISTING_DATA_FILENAME WeatherForecast) = Some example_forecast \<and>
   timeseries (snd (update_all commit_world)) (EXISTING_DATA_FILENAME WeatherForecast) =
     Some [\<lparr>category = ''Marseille'', Datetime = ((2024, 3, 7), 23), vals = [Some 1, Some 2]\<rparr>,
           \<lparr>category = ''Marseille'', Datetime = ((2024, 3, 8), 0), vals = [Some 9, Some 10]\<rparr>,
           \<lparr>category = ''Montpellier'', Datetime = ((2024, 3, 7), 23), vals = [Some 3, Some 4]\<rparr>,
           \<lparr>category = ''Montpellier'', Datetime = ((2024, 3, 8), 0), vals = [Some 9, Some 10]\<rparr>]"
proof -
  have "\<not> DEBUG commit_world"
    by (simp add: commit_world_def empty_world_def)
  moreover have "fst (update_all commit_world) = Inr ()"
    by code_simp
  moreover have "error_log (snd (update_all commit_world)) =
     [Unsuccessful_request (2024, 3, 8) ''NO2'' 500,
      Unsuccessful_request (2024, 3, 8) ''NO2'' 500,
      Error_updating_air_quality (Some (2024, 3, 8)) FileNotFoundError]"
    by code_simp
  moreover have
    "timeseries commit_world (EXISTING_DATA_FILENAME WeatherForecast) = Some example_forecast"
    by (simp add: commit_world_def EXISTING_DATA_FILENAME_def)
  moreover have
    "timeseries (snd (update_all commit_world)) (EXISTING_DATA_FILENAME WeatherForecast) =
     Some [\<lparr>category = ''Marseille'', Datetime = ((2024, 3, 7), 23), vals = [Some 1, Some 2]\<rparr>,
           \<lparr>category = ''Marseille'', Datetime = ((2024, 3, 8), 0), vals = [Some 9, Some 10]\<rparr>,
           \<lparr>category = ''Montpellier'', Datetime = ((2024, 3, 7), 23), vals = [Some 3, Some 4]\<rparr>,
           \<lparr>category = ''Montpellier'', Datetime = ((2024, 3, 8), 0), vals = [Some 9, Some 10]\<rparr>]"
    by code_simp
  ultimately show ?thesis by blast
qed

text \<open>
  Claim C2, amended.  When \<^verbatim>\<open>create_temp_data\<close> or one of the three dataset updates
  raises, so that the exception reaches the handler of \<^verbatim>\<open>update_all\<close> before the copy of
  the staged files has been reached, and the debug flag is unset, the handler only logs
  it: the run returns normally with every live file as it was before the run.
\<close>

theorem run_level_failure_keeps_live:
  assumes "fst (bind create_temp_data (\<lambda>_. update_datasets) w) = Inl e" and "\<not> DEBUG w"
  shows "update_all w = (Inr (), (snd (update_all_try w))
           \<lparr>error_log := error_log (snd (update_all_try w)) @ [Error_on_data_update e]\<rparr>) \<and>
         fst (update_all_try w) = Inl e \<and>
         timeseries (snd (update_all w)) = timeseries w"
proof -
  from staged_failure(1) [OF assms(1)]
  have fails: "fst (update_all_try w) = Inl e" by simp
  then have t: "update_all_try w = (Inl e, snd (update_all_try w))"
    by (metis prod.collapse)
  from staged_failure(3) [OF assms(1)] assms(2)
  have "\<not> DEBUG (snd (update_all_try w))" by simp
  note u = update_all_handled [OF t this]
  from u staged_failure(2) [OF assms(1)]
  have "timeseries (snd (update_all w)) = timeseries w" by simp
  with u fails show ?thesis by blast
qed

theorem run_level_failure_keeps_live_witness:
  "fst (bind create_temp_data (\<lambda>_. update_datasets) offline_world) = Inl ConnectionError \<and>
   \<not> DEBUG offline_world \<and>
   update_all offline_world = (Inr (), (snd (update_all_try offline_world))
      \<lparr>error_log := error_log (snd (update_all_try offline_world))
                      @ [Error_on_data_update ConnectionError]\<rparr>) \<and>
   fst (update_all_try offline_world) = Inl ConnectionError \<and>
   timeseries (snd (update_all offline_world)) = timeseries offline_world"
  using run_level_failure_keeps_live [OF offline_world_staged_fails offline_world_not_DEBUG]
    offline_world_staged_fails offline_world_not_DEBUG
  by blast

text \<open>
  Claim C3 fails on the code.  In \<open>offline_world\<close> the forecast service cannot be reached:
  the exception reaches the handler of \<^verbatim>\<open>update_all\<close>, the run returns normally, and
  the staging directory is still there, with the staged copy of the forecast snapshot in
  it.  The handler does not call \<^verbatim>\<open>clear_temp_data\<close>.
\<close>

theorem handled_failure_staging_remains:
  "\<not> DEBUG offline_world \<and>
   fst (update_all_try offline_world) = Inl ConnectionError \<and>
   fst (update_all offline_world) = Inr () \<and>
   staged_snapshot WeatherForecast (snd (update_all offline_world)) = Some example_forecast"
proof -
  have "fst (update_all offline_world) = Inr ()"
    by code_simp
  moreover have
    "staged_snapshot WeatherForecast (snd (update_all offline_world)) = Some example_forecast"
    by code_simp
  ultimately show ?thesis
    using offline_world_fails offline_world_not_DEBUG by blast
qed

text \<open>
  Claim C3, amended.  When \<^verbatim>\<open>create_temp_data\<close> has staged the live files and one of
  the three dataset updates then raises, so that the exception reaches the handler of
  \<^verbatim>\<open>update_all\<close>, and the debug flag is unset, the run returns normally, no live file
  has been touched and the staging directory is left in place; a later
  \<^verbatim>\<open>create_temp_data\<close> that does not raise deletes it and stages the unchanged live files
  afresh.
\<close>

theorem handled_failure_keeps_staging:
  assumes "fst (create_temp_data w) = Inr ()"
    and "fst (update_datasets (snd (create_temp_data w))) = Inl e"
    and "\<not> DEBUG w"
  shows "fst (update_all_try w) = Inl e \<and>
         fst (update_all w) = Inr () \<and>
         timeseries (snd (update_all w)) = timeseries w \<and>
         timeseries_temp (snd (update_all w)) \<noteq> None \<and>
         (fst (create_temp_data (snd (update_all w))) = Inr () \<longrightarrow>
            timeseries_temp (snd (create_temp_data (snd (update_all w)))) = Some (timeseries w))"
proof -
  note f = update_failure [OF assms(1,2)]
  from staged_failure(1) [OF f(1)]
  have fails: "fst (update_all_try w) = Inl e" by simp
  then have t: "update_all_try w = (Inl e, snd (update_all_try w))"
    by (metis prod.collapse)
  from staged_failure(1) [OF f(1)] f(2)
  have temp: "timeseries_temp (snd (update_all_try w)) \<noteq> None" by simp
  from staged_failure(3) [OF f(1)] assms(3)
  have "\<not> DEBUG (snd (update_all_try w))" by simp
  note u = update_all_handled [OF t this]
  from u staged_failure(2) [OF f(1)]
  have live: "timeseries (snd (update_all w)) = timeseries w" by simp
  from u temp have staged: "timeseries_temp (snd (update_all w)) \<noteq> None" by simp
  from u have returns: "fst (update_all w) = Inr ()" by simp
  have "timeseries_temp (snd (create_temp_data (snd (update_all w)))) = Some (timeseries w)"
    if "fst (create_temp_data (snd (update_all w))) = Inr ()"
    using create_temp_data_staged [OF that] live by simp
  with fails returns live staged show ?thesis by blast
qed

theorem handled_failure_keeps_staging_witness:
  "fst (create_temp_data offline_world) = Inr () \<and>
   fst (update_datasets (snd (create_temp_data offline_world))) = Inl ConnectionError \<and>
   \<not> DEBUG offline_world \<and>
   fst (update_all_try offline_world) = Inl ConnectionError \<and>
   fst (update_all offline_world) = Inr () \<and>
   timeseries (snd (update_all offline_world)) = timeseries offline_world \<and>
   timeseries_temp (snd (update_all offline_world)) \<noteq> None \<and>
   fst (create_temp_data (snd (update_all offline_world))) = Inr () \<and>
   timeseries_temp (snd (create_temp_data (snd (update_all offline_world))))
     = Some (timeseries offline_world)"
proof -
  have next_run: "fst (create_temp_data (snd (update_all offline_world))) = Inr ()"
    by code_simp
  from handled_failure_keeps_staging
    [OF offline_world_staged offline_world_update_fails offline_world_not_DEBUG]
    offline_world_staged offline_world_update_fails offline_world_not_DEBUG next_run
  show ?thesis by blast
qed
section \<open>The whole-day substitution\<close>

text \<open>Printing and parsing dates.\<close>

declare str_nat.simps [simp del]

lemma of_char_digit: "n < 10 \<Longrightarrow> (of_char (digit n) :: nat) = 48 + n"
  unfolding digit_def of_char_of by (rule mod_less) simp

lemma is_digit_digit: "n < 10 \<Longrightarrow> is_digit (digit n)"
  by (simp add: is_digit_def of_char_digit)

lemma digit_inject: "a < 10 \<Longrightarrow> b < 10 \<Longrightarrow> digit a = digit b \<longleftrightarrow> a = b"
proof
  assume "a < 10" "b < 10" "digit a = digit b"
  then have "(of_char (digit a) :: nat) = of_char (digit b)" by simp
  with \<open>a < 10\<close> \<open>b < 10\<close> show "a = b" by (simp only: of_char_digit)
qed simp

lemma digit_eq_char: "n < 10 \<Longrightarrow> digit n = c \<longleftrightarrow> (of_char c :: nat) = 48 + n"
  by (metis of_char_digit of_char_eq_iff)

lemma digit_not_space: "n < 10 \<Longrightarrow> digit n \<noteq> CHR '' ''"
  and digit_not_dash: "n < 10 \<Longrightarrow> digit n \<noteq> CHR ''-''"
  by (simp_all add: digit_eq_char)

lemma digit_chars: "digit 0 = CHR ''0''" "digit 2 = CHR ''2''" "digit 8 = CHR ''8''"
  "digit 9 = CHR ''9''"
  by (simp_all add: digit_eq_char)

text \<open>Two and four digits.\<close>

lemma str_nat_small: "n < 10 \<Longrightarrow> str_nat n = [digit n]"
  by (simp add: str_nat.simps [of n])

lemma str_nat_step: "10 \<le> n \<Longrightarrow> str_nat n = str_nat (n div 10) @ [digit (n mod 10)]"
  by (simp add: str_nat.simps [of n])

lemma zfill_two: "n < 100 \<Longrightarrow> zfill 2 (str_nat n) = two n"
proof (cases "n < 10")
  case True
  then show ?thesis
    by (simp add: str_nat_small zfill_def two_def digit_chars numeral_2_eq_2)
next
  case False
  assume "n < 100"
  with False have "n div 10 < 10" by simp
  with False show ?thesis
    by (simp add: str_nat_step str_nat_small zfill_def two_def)
qed

lemma str_nat_four: "1000 \<le> n \<Longrightarrow> n < 10000 \<Longrightarrow> str_nat n = four n"
proof -
  assume n: "1000 \<le> n" "n < 10000"
  then have a: "10 \<le> n" and b: "10 \<le> n div 10" and c: "10 \<le> n div 10 div 10"
    and d: "n div 10 div 10 div 10 < 10"
    by simp_all
  have e: "n div 10 div 10 div 10 = n div 1000" "n div 10 div 10 mod 10 = n div 100 mod 10"
    by (simp_all add: div_mult2_eq [symmetric])
  have "str_nat n = str_nat (n div 10 div 10 div 10)
      @ [digit (n div 10 div 10 mod 10), digit (n div 10 mod 10), digit (n mod 10)]"
    by (simp add: str_nat_step [OF a] str_nat_step [OF b] str_nat_step [OF c])
  also have "str_nat (n div 10 div 10 div 10) = [digit (n div 10 div 10 div 10)]"
    by (rule str_nat_small [OF d])
  finally show ?thesis
    by (simp add: four_def e)
qed

lemma zfill_four: "1000 \<le> n \<Longrightarrow> n < 10000 \<Longrightarrow> zfill 4 (str_nat n) = four n"
  by (simp add: str_nat_four zfill_def four_def)

lemma py_int_two: "n < 100 \<Longrightarrow> py_int (two n) = Inr (int n)"
proof -
  assume "n < 100"
  then have "n div 10 < 10" "n mod 10 < 10" by simp_all
  then show ?thesis
    by (simp add: py_int_def two_def is_digit_digit of_char_digit)
qed

lemma py_int_four: "n < 10000 \<Longrightarrow> py_int (four n) = Inr (int n)"
proof -
  assume "n < 10000"
  then have d: "n div 1000 < 10" "n div 100 mod 10 < 10" "n div 10 mod 10 < 10" "n mod 10 < 10"
    by simp_all
  have 1: "10 * (n div 10) + n mod 10 = n" by simp
  have "n div 100 = n div 10 div 10" "n div 1000 = n div 10 div 10 div 10"
    by (simp_all add: div_mult2_eq [symmetric])
  then have 2: "10 * (n div 100) + n div 10 mod 10 = n div 10"
    and 3: "10 * (n div 1000) + n div 100 mod 10 = n div 100"
    by simp_all
  have total: "10 * (10 * (10 * (n div 1000) + n div 100 mod 10) + n div 10 mod 10) + n mod 10 = n"
    by (simp only: 1 2 3)
  have "py_int (four n) =
      Inr (int (10 * (10 * (10 * (n div 1000) + n div 100 mod 10) + n div 10 mod 10) + n mod 10))"
    unfolding py_int_def four_def using d
    by (simp add: is_digit_digit of_char_digit del: of_nat_add of_nat_mult)
  then show ?thesis by (simp only: total)
qed

lemma days_in_month_le: "days_in_month y m \<le> 31"
  by (simp add: days_in_month_def)

lemma valid_date_bounds: "valid_date (y, m, dd) \<Longrightarrow> m < 100 \<and> dd < 100"
  using days_in_month_le [of y m] by (simp add: valid_date_def)

lemma strftime_date_digits:
  "1000 \<le> y \<Longrightarrow> y \<le> 9999 \<Longrightarrow> valid_date (y, m, dd) \<Longrightarrow>
   strftime_date (y, m, dd) = four y @ ''-'' @ two m @ ''-'' @ two dd"
  using valid_date_bounds [of y m dd]
  by (simp add: strftime_date_def zfill_four zfill_two)

lemma strftime_time_digits: "h < 24 \<Longrightarrow> strftime_time h = two h @ '':00:00''"
  by (simp add: strftime_time_def zfill_two)

lemma length_strftime_date:
  "1000 \<le> y \<Longrightarrow> y \<le> 9999 \<Longrightarrow> valid_date (y, m, dd) \<Longrightarrow>
   length (strftime_date (y, m, dd)) = 10"
  by (simp add: strftime_date_digits four_def two_def)

lemma space_notin_two: "n < 100 \<Longrightarrow> CHR '' '' \<notin> set (two n)"
proof -
  assume "n < 100"
  then have "n div 10 < 10" "n mod 10 < 10" by simp_all
  then show ?thesis
    using digit_not_space [of "n div 10"] digit_not_space [of "n mod 10"]
    by (auto simp: two_def)
qed

lemma space_notin_four: "n < 10000 \<Longrightarrow> CHR '' '' \<notin> set (four n)"
proof -
  assume "n < 10000"
  then have "n div 1000 < 10" "n div 100 mod 10 < 10" "n div 10 mod 10 < 10" "n mod 10 < 10"
    by simp_all
  then show ?thesis
    using digit_not_space [of "n div 1000"] digit_not_space [of "n div 100 mod 10"]
      digit_not_space [of "n div 10 mod 10"] digit_not_space [of "n mod 10"]
    by (auto simp: four_def)
qed

lemma space_notin_strftime_date:
  "1000 \<le> y \<Longrightarrow> y \<le> 9999 \<Longrightarrow> valid_date (y, m, dd) \<Longrightarrow>
   CHR '' '' \<notin> set (strftime_date (y, m, dd))"
  using valid_date_bounds [of y m dd]
  by (simp add: strftime_date_digits space_notin_two space_notin_four)

lemma parse_strftime_date:
  assumes "1000 \<le> y" "y \<le> 9999" "valid_date (y, m, dd)"
  shows "py_int (take 4 (strftime_date (y, m, dd))) = Inr (int y)"
    and "py_int (take 2 (drop 5 (strftime_date (y, m, dd)))) = Inr (int m)"
    and "py_int (take 2 (drop 8 (strftime_date (y, m, dd)))) = Inr (int dd)"
proof -
  have s: "strftime_date (y, m, dd) = four y @ ''-'' @ two m @ ''-'' @ two dd"
    using assms by (rule strftime_date_digits)
  have l: "length (four y) = 4" "length (two m) = 2" "length (two dd) = 2"
    by (simp_all add: four_def two_def)
  from assms valid_date_bounds [of y m dd] have b: "y < 10000" "m < 100" "dd < 100" by simp_all
  show "py_int (take 4 (strftime_date (y, m, dd))) = Inr (int y)"
    by (simp add: s l py_int_four [OF b(1)])
  show "py_int (take 2 (drop 5 (strftime_date (y, m, dd)))) = Inr (int m)"
    by (simp add: s l py_int_two [OF b(2)])
  show "py_int (take 2 (drop 8 (strftime_date (y, m, dd)))) = Inr (int dd)"
    by (simp add: s l py_int_two [OF b(3)])
qed

lemma strftime_date_inject:
  assumes "1000 \<le> y" "y \<le> 9999" "valid_date (y, m, dd)"
    and "1000 \<le> y'" "y' \<le> 9999" "valid_date (y', m', dd')"
    and "strftime_date (y, m, dd) = strftime_date (y', m', dd')"
  shows "(y, m, dd) = (y', m', dd')"
  using parse_strftime_date [OF assms(1-3)] parse_strftime_date [OF assms(4-6)] assms(7)
  by simp

lemma split_no_sep: "sep \<notin> set s \<Longrightarrow> split sep s = [s]"
  by (induction s) auto

lemma split_at: "sep \<notin> set p \<Longrightarrow> split sep (p @ sep # s) = p # split sep s"
  by (induction p) auto

lemma two_inject: "a < 100 \<Longrightarrow> b < 100 \<Longrightarrow> two a = two b \<longleftrightarrow> a = b"
proof
  assume a: "a < 100" and b: "b < 100" and eq: "two a = two b"
  then have "a div 10 < 10" "a mod 10 < 10" "b div 10 < 10" "b mod 10 < 10" by simp_all
  with eq have "a div 10 = b div 10" "a mod 10 = b mod 10"
    by (simp_all add: two_def digit_inject)
  then show "a = b" by (metis div_mult_mod_eq)
qed simp

lemma two_chars: "''02'' = two 2" "''29'' = two 29" "''28'' = two 28"
  by (simp_all add: two_def digit_chars)

lemma valid_date_last_year:
  "valid_date (y, m, dd) \<Longrightarrow>
   valid_date (y - 1, m, if m = 2 \<and> dd = 29 then 28 else dd)"
  by (auto simp: valid_date_def days_in_month_def split: if_splits)

lemma same_day_last_year_key:
  assumes y: "1000 < y" "y \<le> 9999" and v: "valid_date (y, m, dd)"
    and p: "CHR '' '' \<notin> set p"
  shows "same_day_last_year (p @ '' '' @ strftime_date (y, m, dd)) =
         Inr (p @ '' '' @ strftime_date (y - 1, m, if m = 2 \<and> dd = 29 then 28 else dd))"
proof -
  let ?date = "strftime_date (y, m, dd)"
  from y have y': "1000 \<le> y" by simp
  have sp: "split CHR '' '' (p @ '' '' @ ?date) = [p, ?date]"
    using split_at [OF p, of ?date] split_no_sep [OF space_notin_strftime_date [OF y' y(2) v]]
    by simp
  have year: "py_int (take 4 ?date) = Inr (int y)"
    by (rule parse_strftime_date [OF y' y(2) v])
  have d: "?date = four y @ ''-'' @ two m @ ''-'' @ two dd"
    by (rule strftime_date_digits [OF y' y(2) v])
  have md: "drop 4 ?date = ''-'' @ two m @ ''-'' @ two dd"
    by (simp add: d four_def)
  from valid_date_bounds [OF v] have b: "m < 100" "dd < 100" by simp_all
  have feb: "(''-'' @ two m @ ''-'' @ two dd = ''-02-29'') = (m = 2 \<and> dd = 29)"
  proof -
    have "(''-'' @ two m @ ''-'' @ two dd = ''-'' @ two 2 @ ''-'' @ two 29)
        = (two m = two 2 \<and> two dd = two 29)"
      by (simp add: two_def)
    also have "\<dots> = (m = 2 \<and> dd = 29)"
      using b by (simp add: two_inject)
    finally show ?thesis by (simp add: two_chars [symmetric])
  qed
  have prev: "str_int (int y - 1) = four (y - 1)"
  proof -
    from y have eq: "int y - 1 = int (y - 1)" by simp
    from y have "1000 \<le> y - 1" "y - 1 < 10000" by simp_all
    then have "str_nat (y - 1) = four (y - 1)" by (rule str_nat_four)
    then show ?thesis unfolding eq str_int_def by simp
  qed
  let ?dd = "if m = 2 \<and> dd = 29 then 28 else dd"
  from y have py: "1000 \<le> y - 1" "y - 1 \<le> 9999" by simp_all
  have target: "strftime_date (y - 1, m, ?dd) = four (y - 1) @ ''-'' @ two m @ ''-'' @ two ?dd"
    by (rule strftime_date_digits [OF py valid_date_last_year [OF v]])
  have "same_day_last_year (p @ '' '' @ ?date) =
      Inr (p @ '' '' @ four (y - 1) @
           (if ''-'' @ two m @ ''-'' @ two dd = ''-02-29'' then ''-02-28''
            else ''-'' @ two m @ ''-'' @ two dd))"
    unfolding same_day_last_year_def sp
    by (simp add: year md prev Let_def del: append.simps)
  also have "(if ''-'' @ two m @ ''-'' @ two dd = ''-02-29'' then ''-02-28''
            else ''-'' @ two m @ ''-'' @ two dd) = ''-'' @ two m @ ''-'' @ two ?dd"
    unfolding feb by (simp add: two_chars)
  finally show ?thesis unfolding target by simp
qed

lemma last10_key:
  "1000 \<le> y \<Longrightarrow> y \<le> 9999 \<Longrightarrow> valid_date (y, m, dd) \<Longrightarrow>
   last10 (p @ '' '' @ strftime_date (y, m, dd)) = strftime_date (y, m, dd)"
  by (simp add: last10_def length_strftime_date)

lemma to_datetime_strftime:
  assumes "1000 \<le> y" "y \<le> 9999" "valid_date (y, m, dd)" "h < 24"
  shows "to_datetime (strftime_date (y, m, dd) @ '' '' @ strftime_time h) = Inr ((y, m, dd), h)"
proof -
  let ?s = "strftime_date (y, m, dd) @ '' '' @ strftime_time h"
  have s: "?s = four y @ ''-'' @ two m @ ''-'' @ two dd @ '' '' @ two h @ '':00:00''"
    using assms by (simp add: strftime_date_digits strftime_time_digits)
  have l: "length (four y) = 4" "length (two m) = 2" "length (two dd) = 2" "length (two h) = 2"
    by (simp_all add: four_def two_def)
  from assms valid_date_bounds [of y m dd]
  have b: "y < 10000" "m < 100" "dd < 100" "h < 100" by simp_all
  have parts: "py_int (take 4 ?s) = Inr (int y)" "py_int (take 2 (drop 5 ?s)) = Inr (int m)"
    "py_int (take 2 (drop 8 ?s)) = Inr (int dd)" "py_int (take 2 (drop 11 ?s)) = Inr (int h)"
    unfolding s
    by (simp_all add: l py_int_four [OF b(1)] py_int_two [OF b(2)] py_int_two [OF b(3)]
        py_int_two [OF b(4)])
  have form: "length ?s = 19" "take 1 (drop 4 ?s) = ''-''" "take 1 (drop 7 ?s) = ''-''"
    "take 1 (drop 10 ?s) = '' ''" "drop 13 ?s = '':00:00''"
    unfolding s by (simp_all add: l)
  show ?thesis
    unfolding to_datetime_def parts form using assms by simp
qed

lemma Polluant_Date_inject:
  assumes "valid_timestamp (Datetime r)" "1000 \<le> y" "y \<le> 9999" "valid_date (y, m, dd)"
  shows "Polluant_Date r = p @ '' '' @ strftime_date (y, m, dd)
         \<longleftrightarrow> category r = p \<and> fst (Datetime r) = (y, m, dd)"
proof -
  obtain y' m' dd' h where t: "Datetime r = ((y', m', dd'), h)"
    by (metis prod.collapse)
  with assms(1) have v: "1000 \<le> y'" "y' \<le> 9999" "valid_date (y', m', dd')"
    by (simp_all add: valid_timestamp_def)
  have "length (strftime_date (y', m', dd')) = length (strftime_date (y, m, dd))"
    by (simp add: length_strftime_date [OF v] length_strftime_date [OF assms(2-4)])
  then have "(category r @ '' '' @ strftime_date (y', m', dd') = p @ '' '' @ strftime_date (y, m, dd))
      = (category r = p \<and> strftime_date (y', m', dd') = strftime_date (y, m, dd))"
    by auto
  also have "\<dots> = (category r = p \<and> (y', m', dd') = (y, m, dd))"
    using strftime_date_inject [OF v assms(2-4)] by auto
  finally show ?thesis by (simp add: Polluant_Date_def t)
qed

lemma mset_insert_row: "mset (insert_row le x xs) = add_mset x (mset xs)"
  by (induction xs) auto

lemma mset_sort_values: "mset (sort_values le xs) = mset xs"
  by (induction xs) (simp_all add: sort_values_def mset_insert_row)

lemma copy_rows_valid:
  assumes "1000 \<le> y" "y \<le> 9999" "valid_date (y, m, dd)"
    and "list_all (\<lambda>rk. snd (Datetime (fst rk)) < 24) rows"
  shows "\<exists>copied. copy_rows (p @ '' '' @ strftime_date (y, m, dd)) rows = Inr copied \<and>
           map fst copied = map (\<lambda>rk. (fst rk)\<lparr>Datetime := ((y, m, dd), snd (Datetime (fst rk)))\<rparr>) rows"
  using assms(4)
proof (induction rows)
  case Nil
  then show ?case by simp
next
  case (Cons rk rows)
  obtain r k where rk: "rk = (r, k)" by (cases rk)
  from Cons.prems rk have h: "snd (Datetime r) < 24" by simp
  from Cons obtain copied where
    c: "copy_rows (p @ '' '' @ strftime_date (y, m, dd)) rows = Inr copied"
      "map fst copied = map (\<lambda>rk. (fst rk)\<lparr>Datetime := ((y, m, dd), snd (Datetime (fst rk)))\<rparr>) rows"
    by auto
  have "to_datetime (last10 (p @ '' '' @ strftime_date (y, m, dd)) @ '' ''
          @ strftime_time (snd (Datetime r))) = Inr ((y, m, dd), snd (Datetime r))"
    unfolding last10_key [OF assms(1-3)]
    by (rule to_datetime_strftime [OF assms(1-3) h])
  with c rk show ?case by simp
qed

lemma valid_frame_key:
  "valid_frame df \<Longrightarrow> r \<in> set df \<Longrightarrow> valid_key (category r, fst (Datetime r))"
  by (cases "Datetime r")
     (auto simp: valid_frame_def valid_key_def valid_timestamp_def list_all_iff
           split: prod.splits)

lemma valid_frame_hour:
  "valid_frame df \<Longrightarrow> r \<in> set df \<Longrightarrow> snd (Datetime r) < 24"
  by (cases "Datetime r")
     (auto simp: valid_frame_def valid_timestamp_def list_all_iff split: prod.splits)

lemma valid_frame_timestamp:
  "valid_frame df \<Longrightarrow> r \<in> set df \<Longrightarrow> valid_timestamp (Datetime r)"
  by (auto simp: valid_frame_def list_all_iff)

lemma Polluant_Date_key_of:
  assumes "valid_timestamp (Datetime r)" "valid_key pd"
  shows "Polluant_Date r = key_of pd \<longleftrightarrow> (category r, fst (Datetime r)) = pd"
proof -
  obtain p y m dd where pd: "pd = (p, (y, m, dd))" by (metis prod.collapse)
  with assms(2) have "1000 \<le> y" "y \<le> 9999" "valid_date (y, m, dd)"
    by (simp_all add: valid_key_def)
  from Polluant_Date_inject [OF assms(1) this, of p] show ?thesis
    by (simp add: key_of_def pd)
qed

lemma filter_last_year:
  assumes "valid_frame existing" "valid_key (p, d)"
  shows "filter (\<lambda>rk. snd rk = p @ '' '' @ strftime_date (last_year d))
           (map (\<lambda>r. (r, Polluant_Date r)) existing)
         = map (\<lambda>r. (r, Polluant_Date r)) (rows_of_day p (last_year d) existing)"
proof -
  obtain y m dd where d: "d = (y, m, dd)" by (metis prod.collapse)
  let ?l = "(y - 1, m, if m = 2 \<and> dd = 29 then 28 else dd)"
  from assms(2) d have v: "1000 < y" "y \<le> 9999" "valid_date (y, m, dd)"
    by (simp_all add: valid_key_def)
  from v(1,2) have "1000 \<le> y - 1" "y - 1 \<le> 9999" by arith+
  moreover have "valid_date ?l" by (rule valid_date_last_year [OF v(3)])
  ultimately have "1000 \<le> y - 1" "y - 1 \<le> 9999" "valid_date ?l" .
  then have "\<And>r. r \<in> set existing \<Longrightarrow>
      (Polluant_Date r = p @ '' '' @ strftime_date ?l)
      = (category r = p \<and> fst (Datetime r) = ?l)"
    using Polluant_Date_inject valid_frame_timestamp [OF assms(1)] by blast
  then show ?thesis
    unfolding rows_of_day_def last_year_def d filter_map
    by (auto intro!: arg_cong [where f = "map (\<lambda>r. (r, Polluant_Date r))"] filter_cong)
qed

lemma replace_copied_days_loop_valid:
  assumes "valid_frame existing" "list_all valid_key ks"
  shows "\<exists>copied. replace_copied_days_loop (map (\<lambda>r. (r, Polluant_Date r)) existing)
                    (map key_of ks) = Inr copied \<and>
           map fst copied
           = concat (map (\<lambda>pd. moved_to_day (snd pd) (rows_of_day (fst pd) (last_year (snd pd)) existing)) ks)"
  using assms(2)
proof (induction ks)
  case Nil
  then show ?case by simp
next
  case (Cons pd ks)
  obtain p y m dd where pd: "pd = (p, (y, m, dd))" by (metis prod.collapse)
  from Cons.prems pd have k: "valid_key (p, (y, m, dd))" by simp
  then have y: "1000 < y" "y \<le> 9999" "valid_date (y, m, dd)" "CHR '' '' \<notin> set p"
    by (simp_all add: valid_key_def)
  from y have y': "1000 \<le> y" by simp
  have s: "same_day_last_year (key_of pd)
           = Inr (p @ '' '' @ strftime_date (last_year (y, m, dd)))"
    using same_day_last_year_key [OF y] by (simp add: key_of_def pd last_year_def)
  let ?rows = "map (\<lambda>r. (r, Polluant_Date r)) (rows_of_day p (last_year (y, m, dd)) existing)"
  have "list_all (\<lambda>rk. snd (Datetime (fst rk)) < 24) ?rows"
    using valid_frame_hour [OF assms(1)] by (auto simp: list_all_iff rows_of_day_def)
  from copy_rows_valid [OF y' y(2,3) this, of p] obtain c where
    c: "copy_rows (key_of pd) ?rows = Inr c"
       "map fst c = moved_to_day (y, m, dd) (rows_of_day p (last_year (y, m, dd)) existing)"
    by (auto simp: key_of_def pd moved_to_day_def comp_def)
  from Cons obtain rest where
    r: "replace_copied_days_loop (map (\<lambda>r. (r, Polluant_Date r)) existing) (map key_of ks) = Inr rest"
       "map fst rest = concat (map (\<lambda>pd. moved_to_day (snd pd) (rows_of_day (fst pd) (last_year (snd pd)) existing)) ks)"
    by auto
  show ?case
    using s c r filter_last_year [OF assms(1) k] by (simp add: pd)
qed

lemma count_days:
  "length (filter (\<lambda>k'. k' = (p, d))
     (map (\<lambda>r. (category r, fst (Datetime r))) (filter (\<lambda>r. column 0 (vals r) = None) data)))
   = missing_hours p d data"
  unfolding missing_hours_def rows_of_day_def filter_map length_map filter_filter comp_def
  by (rule arg_cong [where f = length], rule filter_cong) auto

lemma count_days_key:
  "length (filter (\<lambda>k'. k' = k)
     (map (\<lambda>r. (category r, fst (Datetime r))) (filter (\<lambda>r. column 0 (vals r) = None) data)))
   = missing_hours (fst k) (snd k) data"
  using count_days [of "fst k" "snd k" data] by simp

lemma days_to_copy:
  "map fst (filter (\<lambda>kc. 12 \<le> snd kc)
     (map (\<lambda>k. (k, length (filter (\<lambda>k'. k' = k)
        (map (\<lambda>r. (category r, fst (Datetime r))) (filter (\<lambda>r. column 0 (vals r) = None) data)))))
        ks))
   = filter (\<lambda>k. 12 \<le> missing_hours (fst k) (snd k) data) ks"
  unfolding count_days_key by (induction ks) simp_all

lemma days_to_copy_set:
  "set (filter (\<lambda>k. 12 \<le> missing_hours (fst k) (snd k) data)
     (levels (map (\<lambda>r. (category r, fst (Datetime r)))
        (filter (\<lambda>r. column 0 (vals r) = None) data))))
   = {pd. 12 \<le> missing_hours (fst pd) (snd pd) data}"
proof -
  let ?days = "map (\<lambda>r. (category r, fst (Datetime r))) (filter (\<lambda>r. column 0 (vals r) = None) data)"
  have "k \<in> set ?days" if "12 \<le> missing_hours (fst k) (snd k) data" for k
  proof -
    from that have "length (filter (\<lambda>k'. k' = k) ?days) \<noteq> 0"
      unfolding count_days_key by simp
    then obtain x where "x \<in> set (filter (\<lambda>k'. k' = k) ?days)"
      unfolding length_0_conv by (meson last_in_set)
    then show ?thesis unfolding set_filter by blast
  qed
  then have "{pd. 12 \<le> missing_hours (fst pd) (snd pd) data} \<subseteq> set ?days" by blast
  then show ?thesis unfolding levels_def set_filter set_sort set_remdups by blast
qed

lemma get_days_needing_replacement_days:
  "\<exists>ks. distinct ks \<and> set ks = {pd. 12 \<le> missing_hours (fst pd) (snd pd) data} \<and>
     get_days_needing_replacement data
     = (if ks = [] then None else Some (map (\<lambda>pd. (fst pd, snd pd, key_of pd)) ks))"
proof -
  let ?null = "filter (\<lambda>r. column 0 (vals r) = None) data"
  let ?days = "map (\<lambda>r. (category r, fst (Datetime r))) ?null"
  let ?ks = "filter (\<lambda>k. 12 \<le> missing_hours (fst k) (snd k) data) (levels ?days)"
  have d: "distinct ?ks" by (rule distinct_filter) (simp add: levels_def)
  have e: "?ks = []" if "?null = []"
    unfolding that by (simp add: levels_def)
  have "get_days_needing_replacement data
        = (if ?ks = [] then None else Some (map (\<lambda>pd. (fst pd, snd pd, key_of pd)) ?ks))"
  proof (cases "?null = []")
    case True
    from e [OF True] show ?thesis
      unfolding get_days_needing_replacement_def Let_def True by simp
  next
    case False
    then show ?thesis
      unfolding get_days_needing_replacement_def Let_def days_to_copy length_0_conv key_of_def
      by (simp only: if_False)
  qed
  with d days_to_copy_set [of data] show ?thesis by blast
qed

lemma rows_of_day_append:
  "rows_of_day p d (xs @ ys) = rows_of_day p d xs @ rows_of_day p d ys"
  by (simp add: rows_of_day_def)

lemma rows_of_day_moved:
  "rows_of_day p d (moved_to_day d (rows_of_day p d' df)) = moved_to_day d (rows_of_day p d' df)"
  by (induction df) (simp_all add: rows_of_day_def moved_to_day_def)

lemma rows_of_day_other:
  "k \<noteq> (p, d) \<Longrightarrow> rows_of_day p d (moved_to_day (snd k) (rows_of_day (fst k) d' df)) = []"
  by (cases k) (auto simp: rows_of_day_def moved_to_day_def filter_empty_conv)

lemma rows_of_day_copied:
  assumes "distinct ks"
  shows "rows_of_day p d (concat (map (\<lambda>pd. moved_to_day (snd pd)
            (rows_of_day (fst pd) (last_year (snd pd)) existing)) ks))
         = (if (p, d) \<in> set ks then moved_to_day d (rows_of_day p (last_year d) existing) else [])"
  using assms
proof (induction ks)
  case Nil
  then show ?case by (simp add: rows_of_day_def)
next
  case (Cons k ks)
  show ?case
  proof (cases "k = (p, d)")
    case True
    with Cons show ?thesis by (simp add: rows_of_day_append rows_of_day_moved)
  next
    case False
    with Cons show ?thesis by (simp add: rows_of_day_append rows_of_day_other)
  qed
qed

lemma rows_of_day_without:
  assumes "valid_frame data" "list_all valid_key ks"
  shows "rows_of_day p d (map fst (get_data_without_days_to_replace data
            (map (\<lambda>pd. (fst pd, snd pd, key_of pd)) ks)))
         = (if (p, d) \<in> set ks then [] else rows_of_day p d data)"
proof -
  have k: "(Polluant_Date r \<in> key_of ` set ks) = ((category r, fst (Datetime r)) \<in> set ks)"
    if "r \<in> set data" for r
  proof -
    have "\<And>pd. pd \<in> set ks \<Longrightarrow>
        (Polluant_Date r = key_of pd) = ((category r, fst (Datetime r)) = pd)"
      using Polluant_Date_key_of [OF valid_frame_timestamp [OF assms(1) that]] assms(2)
      unfolding list_all_iff by blast
    then show ?thesis unfolding image_iff by blast
  qed
  have "map fst (get_data_without_days_to_replace data (map (\<lambda>pd. (fst pd, snd pd, key_of pd)) ks))
        = filter (\<lambda>r. Polluant_Date r \<notin> key_of ` set ks) data"
    unfolding get_data_without_days_to_replace_def Let_def filter_map map_map comp_def
    by (simp add: image_image)
  also have "\<dots> = filter (\<lambda>r. (category r, fst (Datetime r)) \<notin> set ks) data"
    by (rule filter_cong) (simp_all add: k)
  finally show ?thesis
    by (auto simp: rows_of_day_def filter_empty_conv intro!: filter_cong)
qed

lemma rows_of_day_sorted:
  "mset (rows_of_day p d (map fst (sort_values le xs))) = mset (rows_of_day p d (map fst xs))"
  by (simp add: rows_of_day_def mset_sort_values)

lemma missing_hours_row:
  assumes "0 < missing_hours p d data"
  shows "\<exists>r\<in>set data. category r = p \<and> fst (Datetime r) = d"
proof -
  from assms have "filter (\<lambda>r. column 0 (vals r) = None) (rows_of_day p d data) \<noteq> []"
    by (auto simp: missing_hours_def)
  then obtain r where "r \<in> set (rows_of_day p d data)"
    unfolding filter_empty_conv by blast
  then show ?thesis by (auto simp: rows_of_day_def)
qed

lemma replace_copied_days_data_rows:
  assumes "valid_frame data" "valid_frame existing" "list_all valid_key ks" "distinct ks"
  shows "\<exists>out. replace_copied_days_data existing
            (get_data_without_days_to_replace data (map (\<lambda>pd. (fst pd, snd pd, key_of pd)) ks))
            (map (\<lambda>pd. (fst pd, snd pd, key_of pd)) ks) = Inr out \<and>
          (\<forall>p d. mset (rows_of_day p d out)
             = (if (p, d) \<in> set ks then mset (moved_to_day d (rows_of_day p (last_year d) existing))
                else mset (rows_of_day p d data)))"
proof -
  let ?days = "map (\<lambda>pd. (fst pd, snd pd, key_of pd)) ks"
  let ?without = "get_data_without_days_to_replace data ?days"
  have keys: "map (\<lambda>pdk. snd (snd pdk)) ?days = map key_of ks" by simp
  from replace_copied_days_loop_valid [OF assms(2,3)] obtain copied where
    c: "replace_copied_days_loop (map (\<lambda>r. (r, Polluant_Date r)) existing) (map key_of ks) = Inr copied"
       "map fst copied = concat (map (\<lambda>pd. moved_to_day (snd pd)
           (rows_of_day (fst pd) (last_year (snd pd)) existing)) ks)"
    by blast
  let ?out = "map fst (sort_values (\<lambda>a b. ascending_ascending (fst a) (fst b)) (?without @ copied))"
  have r: "replace_copied_days_data existing ?without ?days = Inr ?out"
    unfolding replace_copied_days_data_def Let_def keys c(1) by simp
  have "mset (rows_of_day p d ?out)
        = (if (p, d) \<in> set ks then mset (moved_to_day d (rows_of_day p (last_year d) existing))
           else mset (rows_of_day p d data))" for p d
    unfolding rows_of_day_sorted map_append rows_of_day_append c(2)
      rows_of_day_copied [OF assms(4)] rows_of_day_without [OF assms(1,3)]
    by simp
  with r show ?thesis by blast
qed

text \<open>The example.\<close>

lemma sparse_day_fetched_valid: "valid_frame sparse_day_fetched"
  by code_simp

lemma sparse_day_pollutants_valid: "valid_frame sparse_day_pollutants"
  by code_simp

lemma sparse_day_world_live:
  "fst (get_existing_data_df AirQuality False sparse_day_world) = Inr sparse_day_pollutants"
  by code_simp

lemma sparse_day_missing: "missing_hours ''NO2'' (2024, 2, 29) sparse_day_fetched = 12"
  by code_simp

lemma sparse_day_last_year:
  "moved_to_day (2024, 2, 29) (rows_of_day ''NO2'' (last_year (2024, 2, 29)) sparse_day_pollutants)
   = [\<lparr>category = ''NO2'', Datetime = ((2024, 2, 29), 0), vals = [Some 50]\<rparr>]"
  by code_simp

text \<open>
  Claim C6 fails on the code.  No function of the module calls \<^verbatim>\<open>get_filled_data\<close>, and
  the merge of \<^verbatim>\<open>run_update\<close> substitutes no day.  In \<open>sparse_day_world\<close> the fetched
  data of 29 February 2024 misses twelve hours of NO2 and the snapshot holds NO2 of
  28 February 2023, at 00:00 only, with value 50; the snapshot that \<^verbatim>\<open>run_update\<close>
  saves holds for NO2 on 29 February 2024 the thirteen fetched hours, the missing ones
  interpolated between the value 10 of the evening before and the value 4 fetched at
  12:00.
\<close>

theorem run_update_keeps_sparse_day:
  "fst (get_cleaned_fetched_pollutants_data (2024, 2, 29) sparse_day_world)
     = Inr sparse_day_fetched \<and>
   missing_hours ''NO2'' (2024, 2, 29) sparse_day_fetched = 12 \<and>
   timeseries sparse_day_world (EXISTING_DATA_FILENAME AirQuality) = Some sparse_day_pollutants \<and>
   staged_snapshot AirQuality sparse_day_world = Some sparse_day_pollutants \<and>
   rows_of_day ''NO2'' (2023, 2, 28) sparse_day_pollutants
     = [\<lparr>category = ''NO2'', Datetime = ((2023, 2, 28), 0), vals = [Some 50]\<rparr>] \<and>
   fst (run_update (2024, 2, 29) sparse_day_world) = Inr () \<and>
   map_option (rows_of_day ''NO2'' (2024, 2, 29))
     (staged_snapshot AirQuality (snd (run_update (2024, 2, 29) sparse_day_world)))
     = Some (map (\<lambda>h. \<lparr>category = ''NO2'', Datetime = ((2024, 2, 29), h),
                          vals = [Some (10 - 6 * (real h + 1) / 13)]\<rparr>) [0..<13])"
proof -
  have "fst (get_cleaned_fetched_pollutants_data (2024, 2, 29) sparse_day_world)
     = Inr sparse_day_fetched"
    by code_simp
  moreover have
    "timeseries sparse_day_world (EXISTING_DATA_FILENAME AirQuality) = Some sparse_day_pollutants"
    by code_simp
  moreover have "staged_snapshot AirQuality sparse_day_world = Some sparse_day_pollutants"
    by code_simp
  moreover have "rows_of_day ''NO2'' (2023, 2, 28) sparse_day_pollutants
     = [\<lparr>category = ''NO2'', Datetime = ((2023, 2, 28), 0), vals = [Some 50]\<rparr>]"
    by code_simp
  moreover have "fst (run_update (2024, 2, 29) sparse_day_world) = Inr ()"
    by code_simp
  moreover have "map_option (rows_of_day ''NO2'' (2024, 2, 29))
     (staged_snapshot AirQuality (snd (run_update (2024, 2, 29) sparse_day_world)))
     = Some (map (\<lambda>h. \<lparr>category = ''NO2'', Datetime = ((2024, 2, 29), h),
                          vals = [Some (10 - 6 * (real h + 1) / 13)]\<rparr>) [0..<13])"
    by code_simp
  ultimately show ?thesis using sparse_day_missing by blast
qed

text \<open>
  Claim C6, amended: what \<^verbatim>\<open>get_filled_data\<close> returns when it is called.  On fetched
  data and a live snapshot of timestamps after the year 1000 and pollutant names without
  a space, for every pollutant \<open>p\<close> and day \<open>d\<close>, the rows of the result for \<open>p\<close> on \<open>d\<close>
  are, when the fetched data misses at least 12 values of \<open>p\<close> on \<open>d\<close>, exactly the rows
  of the live snapshot for \<open>p\<close> on the same day one year earlier (28 February for
  29 February), moved to day \<open>d\<close> with their hour kept; and otherwise the fetched rows
  for \<open>p\<close> on \<open>d\<close>.
\<close>

theorem whole_day_substitution:
  assumes "valid_frame data" and "valid_frame existing"
    and "fst (get_existing_data_df AirQuality False w) = Inr existing"
  shows "\<exists>out. fst (get_filled_data data w) = Inr out \<and>
           (\<forall>p d. mset (rows_of_day p d out)
              = (if 12 \<le> missing_hours p d data
                 then mset (moved_to_day d (rows_of_day p (last_year d) existing))
                 else mset (rows_of_day p d data)))"
proof -
  from get_days_needing_replacement_days [of data] obtain ks where
    ks: "distinct ks" "set ks = {pd. 12 \<le> missing_hours (fst pd) (snd pd) data}"
      "get_days_needing_replacement data
       = (if ks = [] then None else Some (map (\<lambda>pd. (fst pd, snd pd, key_of pd)) ks))"
    by blast
  from ks(2) have mem: "\<And>p d. ((p, d) \<in> set ks) = (12 \<le> missing_hours p d data)" by simp
  show ?thesis
  proof (cases "ks = []")
    case True
    with mem have "\<And>p d. \<not> 12 \<le> missing_hours p d data" by simp
    moreover from True ks(3) have "fst (get_filled_data data w) = Inr data"
      by (simp add: get_filled_data_def get_data_filled_with_whole_days_def return_def)
    ultimately show ?thesis by simp
  next
    case False
    have "valid_key pd" if "pd \<in> set ks" for pd
    proof -
      from that ks(2) have "0 < missing_hours (fst pd) (snd pd) data" by auto
      from missing_hours_row [OF this] obtain r where
        "r \<in> set data" "(category r, fst (Datetime r)) = pd" by auto
      with valid_frame_key [OF assms(1)] show ?thesis by metis
    qed
    then have v: "list_all valid_key ks" by (simp add: list_all_iff)
    from replace_copied_days_data_rows [OF assms(1,2) v ks(1)] obtain out where
      out: "replace_copied_days_data existing
              (get_data_without_days_to_replace data (map (\<lambda>pd. (fst pd, snd pd, key_of pd)) ks))
              (map (\<lambda>pd. (fst pd, snd pd, key_of pd)) ks) = Inr out"
        "\<And>p d. mset (rows_of_day p d out)
             = (if (p, d) \<in> set ks then mset (moved_to_day d (rows_of_day p (last_year d) existing))
                else mset (rows_of_day p d data))"
      by blast
    obtain w' where "get_existing_data_df AirQuality False w = (Inr existing, w')"
      using assms(3) by (metis prod.collapse)
    with False ks(3) out(1) have "fst (get_filled_data data w) = Inr out"
      by (simp add: get_filled_data_def get_data_filled_with_whole_days_def bind_def lift_def)
    with out(2) mem show ?thesis by simp
  qed
qed

theorem whole_day_substitution_witness:
  "valid_frame sparse_day_fetched \<and> valid_frame sparse_day_pollutants \<and>
   fst (get_existing_data_df AirQuality False sparse_day_world) = Inr sparse_day_pollutants \<and>
   12 \<le> missing_hours ''NO2'' (2024, 2, 29) sparse_day_fetched \<and>
   (\<exists>out. fst (get_filled_data sparse_day_fetched sparse_day_world) = Inr out \<and>
      mset (rows_of_day ''NO2'' (2024, 2, 29) out)
      = {#\<lparr>category = ''NO2'', Datetime = ((2024, 2, 29), 0), vals = [Some 50]\<rparr>#})"
proof -
  from whole_day_substitution
    [OF sparse_day_fetched_valid sparse_day_pollutants_valid sparse_day_world_live]
  obtain out where
    out: "fst (get_filled_data sparse_day_fetched sparse_day_world) = Inr out"
      "\<And>p d. mset (rows_of_day p d out)
         = (if 12 \<le> missing_hours p d sparse_day_fetched
            then mset (moved_to_day d (rows_of_day p (last_year d) sparse_day_pollutants))
            else mset (rows_of_day p d sparse_day_fetched))"
    by blast
  have "mset (rows_of_day ''NO2'' (2024, 2, 29) out)
        = {#\<lparr>category = ''NO2'', Datetime = ((2024, 2, 29), 0), vals = [Some 50]\<rparr>#}"
    unfolding out(2) sparse_day_missing sparse_day_last_year by simp
  with out(1) sparse_day_fetched_valid sparse_day_pollutants_valid sparse_day_world_live
    sparse_day_missing
  show ?thesis by simp
qed

end
